theory Spec2Isabelle
  imports Main
begin

section \<open>The query client of zenchat-ai (src/shared/lib/queryClient.ts)\<close>

text \<open>
  A shallow embedding of the module that configures the TanStack query client: the retry
  policy, the backoff, and the two functions that save the query cache to localStorage
  and restore it. The finite numbers of the model are integers: the numbers the module
  handles are epoch milliseconds, HTTP status codes, failure counts and a schema version,
  all of them integers far inside the range where doubles are exact. Query data may be a
  number of any kind: NaN and the infinities, which the module treats in ways of their own,
  are values of the model; a finite number that is not an integer is left out, the module
  treating it as it treats a nonzero integer (it is truthy, and JSON writes and reads it).
\<close>

subsection \<open>Retry policy\<close>

text \<open>
  The error handed to the retry predicate. The source tests
  \<^verbatim>\<open>error && typeof error === "object" && "status" in error\<close> and then reads
  \<^verbatim>\<open>(error as { status: number }).status\<close>: an error is either not an object at all
  (a thrown primitive, null, undefined), or an object that may carry a numeric status.
\<close>

datatype js_error =
    Not_an_object
  | Error_object "int option"

text \<open>
  \<^verbatim>\<open>retry: (failureCount, error) => { if (failureCount >= 3) return false; ... }\<close>
\<close>

definition retry :: "nat \<Rightarrow> js_error \<Rightarrow> bool" where
  "retry failureCount error =
     (if failureCount \<ge> 3 then False
      else if (case error of
                 Error_object (Some status) \<Rightarrow> status \<ge> 400 \<and> status < 500
               | _ \<Rightarrow> False)
           then False
      else True)"

text \<open>
  \<^verbatim>\<open>retryDelay: (attemptIndex) => Math.min(1000 * 2 ** attemptIndex, 30000)\<close>, in
  milliseconds. In doubles \<open>2 ** n\<close> is exact up to \<open>n = 1023\<close> and infinite beyond, where
  the minimum is 30000 as well, so the integer formula gives the value the source
  computes for every attempt index.
\<close>

definition retryDelay :: "nat \<Rightarrow> int" where
  "retryDelay attemptIndex = min (1000 * 2 ^ attemptIndex) 30000"

text \<open>
  The \<open>retry\<close> option of the library is a boolean, a number or a function; the library
  asks, after each failure, whether to try again, passing the number of failures so far
  (0 after the first failure): \<open>true\<close> always retries, a number \<open>n\<close> retries while
  \<open>failureCount < n\<close>, a function decides itself.
\<close>

datatype retry_option =
    Retry_bool bool
  | Retry_count nat
  | Retry_fn "nat \<Rightarrow> js_error \<Rightarrow> bool"

fun shouldRetry :: "retry_option \<Rightarrow> nat \<Rightarrow> js_error \<Rightarrow> bool" where
  "shouldRetry (Retry_bool b) failureCount error = b"
| "shouldRetry (Retry_count n) failureCount error = (failureCount < n)"
| "shouldRetry (Retry_fn f) failureCount error = f failureCount error"

text \<open>
  The two \<open>retry\<close> entries of \<open>defaultOptions\<close>: the function above for queries, and
  \<^verbatim>\<open>mutations: { retry: 1 }\<close>.
\<close>

definition queries_retry :: retry_option where
  "queries_retry = Retry_fn retry"

definition mutations_retry :: retry_option where
  "mutations_retry = Retry_count 1"

subsection \<open>JavaScript values and exceptions\<close>

text \<open>
  Query keys and query data are untyped on the JavaScript side (\<open>unknown\<close>). A value is
  undefined, null, a boolean, a finite number (an integer), NaN, an infinity, a BigInt, a
  string, a function, an array, or a plain object (one without a \<open>toJSON\<close> method) whose
  properties are listed in enumeration order. A symbol fares like a function in all the
  module does with a value: it is truthy, it has none of the properties the module reads,
  and \<open>JSON.stringify\<close> has no text for it. Strings are lists of code units, each in the
  range U+0000 to U+00FF.
\<close>

datatype jsvalue =
    JUndefined
  | JNull
  | JBool bool
  | JNum int
  | JNaN
  | JPosInfinity
  | JNegInfinity
  | JBigInt int
  | JStr string
  | JFunction
  | JArr "jsvalue list"
  | JObj "(string \<times> jsvalue) list"

datatype js_exn =
    TypeError
  | SyntaxError
  | DOMException string

text \<open>Truthiness: \<^verbatim>\<open>!v\<close> is \<open>\<not> truthy v\<close>.\<close>

fun truthy :: "jsvalue \<Rightarrow> bool" where
  "truthy JUndefined = False"
| "truthy JNull = False"
| "truthy (JBool b) = b"
| "truthy (JNum n) = (n \<noteq> 0)"
| "truthy JNaN = False"
| "truthy JPosInfinity = True"
| "truthy JNegInfinity = True"
| "truthy (JBigInt n) = (n \<noteq> 0)"
| "truthy (JStr s) = (s \<noteq> [])"
| "truthy JFunction = True"
| "truthy (JArr xs) = True"
| "truthy (JObj ps) = True"

text \<open>
  Reading a property by name, for the names the module destructures (\<open>version\<close>,
  \<open>timestamp\<close>, \<open>queries\<close>, \<open>queryKey\<close>, \<open>data\<close>, \<open>dataUpdatedAt\<close>; none of them is
  inherited from a prototype): destructuring null or undefined throws a TypeError, a
  missing property reads as undefined.
\<close>

fun getProp :: "jsvalue \<Rightarrow> string \<Rightarrow> js_exn + jsvalue" where
  "getProp JUndefined name = Inl TypeError"
| "getProp JNull name = Inl TypeError"
| "getProp (JObj ps) name = Inr (case map_of ps name of None \<Rightarrow> JUndefined | Some v \<Rightarrow> v)"
| "getProp v name = Inr JUndefined"

subsection \<open>JSON.stringify\<close>

text \<open>
  Decimal notation: the text of a BigInt, and the text of a number below \<open>10^21\<close> in
  absolute value. From \<open>10^21\<close> on JavaScript writes a number in exponent notation, so
  the text of a number is a parameter \<open>number_text\<close> of the serialization, and what is
  proved about a serialized text holds for every such function. The examples use the
  decimal notation, on numbers of a few digits.
\<close>

definition digit_char :: "nat \<Rightarrow> char" where
  "digit_char d = char_of (48 + d)"

fun digits_of :: "nat \<Rightarrow> string" where
  "digits_of n = (if n < 10 then [digit_char n] else digits_of (n div 10) @ [digit_char (n mod 10)])"

declare digits_of.simps [simp del]

definition show_int :: "int \<Rightarrow> string" where
  "show_int i = (if i < 0 then CHR ''-'' # digits_of (nat (- i)) else digits_of (nat i))"

definition hex_char :: "nat \<Rightarrow> char" where
  "hex_char d = ''0123456789abcdef'' ! d"

text \<open>
  A string is quoted with the escapes of JSON.stringify: the quote, the backslash, the
  five short escapes, and \<open>\u00XX\<close> for the other control characters.
\<close>

definition escape_char :: "char \<Rightarrow> string" where
  "escape_char c =
     (if c = CHR 0x22 then [CHR 0x5C, CHR 0x22]
      else if c = CHR 0x5C then [CHR 0x5C, CHR 0x5C]
      else if c = CHR 0x08 then [CHR 0x5C, CHR ''b'']
      else if c = CHR 0x0C then [CHR 0x5C, CHR ''f'']
      else if c = CHR 0x0A then [CHR 0x5C, CHR ''n'']
      else if c = CHR 0x0D then [CHR 0x5C, CHR ''r'']
      else if c = CHR 0x09 then [CHR 0x5C, CHR ''t'']
      else if (of_char c :: nat) < 32
           then [CHR 0x5C, CHR ''u'', CHR ''0'', CHR ''0'',
                 hex_char (of_char c div 16), hex_char (of_char c mod 16)]
      else [c])"

definition quote :: "string \<Rightarrow> string" where
  "quote s = CHR 0x22 # concat (map escape_char s) @ [CHR 0x22]"

fun comma_join :: "string list \<Rightarrow> string" where
  "comma_join [] = []"
| "comma_join [x] = x"
| "comma_join (x # y # r) = x @ '','' @ comma_join (y # r)"

text \<open>
  The serialization of a value: \<open>None\<close> where JSON.stringify yields undefined (undefined
  itself and a function; such a value is written as \<open>null\<close> inside an array and its
  property is left out of an object), \<open>null\<close> for NaN and the infinities, a TypeError on
  a BigInt.
\<close>

fun JSON_stringify :: "(int \<Rightarrow> string) \<Rightarrow> jsvalue \<Rightarrow> js_exn + string option"
  and stringify_elements :: "(int \<Rightarrow> string) \<Rightarrow> jsvalue list \<Rightarrow> js_exn + string list"
  and stringify_properties ::
    "(int \<Rightarrow> string) \<Rightarrow> (string \<times> jsvalue) list \<Rightarrow> js_exn + string list" where
  "JSON_stringify number_text JUndefined = Inr None"
| "JSON_stringify number_text JFunction = Inr None"
| "JSON_stringify number_text JNull = Inr (Some ''null'')"
| "JSON_stringify number_text (JBool b) = Inr (Some (if b then ''true'' else ''false''))"
| "JSON_stringify number_text (JNum n) = Inr (Some (number_text n))"
| "JSON_stringify number_text JNaN = Inr (Some ''null'')"
| "JSON_stringify number_text JPosInfinity = Inr (Some ''null'')"
| "JSON_stringify number_text JNegInfinity = Inr (Some ''null'')"
| "JSON_stringify number_text (JBigInt n) = Inl TypeError"
| "JSON_stringify number_text (JStr s) = Inr (Some (quote s))"
| "JSON_stringify number_text (JArr xs) =
     (case stringify_elements number_text xs of
        Inl e \<Rightarrow> Inl e
      | Inr parts \<Rightarrow> Inr (Some (''['' @ comma_join parts @ '']'')))"
| "JSON_stringify number_text (JObj ps) =
     (case stringify_properties number_text ps of
        Inl e \<Rightarrow> Inl e
      | Inr parts \<Rightarrow> Inr (Some (''{'' @ comma_join parts @ ''}'')))"
| "stringify_elements number_text [] = Inr []"
| "stringify_elements number_text (x # xs) =
     (case JSON_stringify number_text x of
        Inl e \<Rightarrow> Inl e
      | Inr r \<Rightarrow>
          (case stringify_elements number_text xs of
             Inl e \<Rightarrow> Inl e
           | Inr rs \<Rightarrow> Inr ((case r of None \<Rightarrow> ''null'' | Some s \<Rightarrow> s) # rs)))"
| "stringify_properties number_text [] = Inr []"
| "stringify_properties number_text (p # ps) =
     (case JSON_stringify number_text (snd p) of
        Inl e \<Rightarrow> Inl e
      | Inr r \<Rightarrow>
          (case stringify_properties number_text ps of
             Inl e \<Rightarrow> Inl e
           | Inr rs \<Rightarrow>
               Inr (case r of None \<Rightarrow> rs | Some s \<Rightarrow> (quote (fst p) @ '':'' @ s) # rs)))"

text \<open>
  What \<open>JSON.parse\<close> returns on a text that \<open>JSON.stringify\<close> wrote for the value:
  undefined where there was no text; null for NaN and the infinities; an array with null
  for each element that had no text; an object without the properties that had none. (A
  BigInt is left as it is: no text is written for a value that holds one.)
\<close>

fun json_image :: "jsvalue \<Rightarrow> jsvalue"
  and json_image_elements :: "jsvalue list \<Rightarrow> jsvalue list"
  and json_image_properties :: "(string \<times> jsvalue) list \<Rightarrow> (string \<times> jsvalue) list" where
  "json_image (JArr xs) = JArr (json_image_elements xs)"
| "json_image (JObj ps) = JObj (json_image_properties ps)"
| "json_image JUndefined = JUndefined"
| "json_image JFunction = JUndefined"
| "json_image JNull = JNull"
| "json_image (JBool b) = JBool b"
| "json_image (JNum n) = JNum n"
| "json_image JNaN = JNull"
| "json_image JPosInfinity = JNull"
| "json_image JNegInfinity = JNull"
| "json_image (JBigInt n) = JBigInt n"
| "json_image (JStr s) = JStr s"
| "json_image_elements [] = []"
| "json_image_elements (x # xs) =
     (if json_image x = JUndefined then JNull else json_image x) # json_image_elements xs"
| "json_image_properties [] = []"
| "json_image_properties (p # ps) =
     (if json_image (snd p) = JUndefined then json_image_properties ps
      else (fst p, json_image (snd p)) # json_image_properties ps)"

text \<open>
  The size of a text in UTF-8, in bytes: one byte for a code unit below U+0080, two for
  the code units from U+0080 to U+00FF.
\<close>

definition utf8_size :: "string \<Rightarrow> nat" where
  "utf8_size s = (\<Sum>c \<leftarrow> s. if (of_char c :: nat) < 128 then 1 else 2)"

subsection \<open>The query cache, localStorage and the console\<close>

text \<open>
  A query of the library's cache, with the fields the module reads and writes:
  \<open>query.queryKey\<close>, the hash under which the cache files it, and \<open>query.state\<close> with
  \<open>status\<close>, \<open>data\<close> and \<open>dataUpdatedAt\<close>. The cache is the list \<open>getAll()\<close> returns, in
  insertion order.
\<close>

datatype query_status = Pending | Error | Success

record query_state =
  data :: jsvalue
  dataUpdatedAt :: int
  status :: query_status

record query =
  queryKey :: "jsvalue list"
  queryHash :: string
  state :: query_state

type_synonym query_client = "query list"

text \<open>
  localStorage: the stored items, and the longest value the browser still accepts for a
  key (\<open>setItem\<close> throws a DOMException named QuotaExceededError beyond it and leaves the
  item as it was).
\<close>

record local_storage =
  items :: "string \<rightharpoonup> string"
  quota :: nat

definition getItem :: "local_storage \<Rightarrow> string \<Rightarrow> string option" where
  "getItem st k = items st k"

definition setItem :: "local_storage \<Rightarrow> string \<Rightarrow> string \<Rightarrow> js_exn + local_storage" where
  "setItem st k v =
     (if length v > quota st then Inl (DOMException ''QuotaExceededError'')
      else Inr (st\<lparr>items := (items st)(k \<mapsto> v)\<rparr>))"

definition removeItem :: "local_storage \<Rightarrow> string \<Rightarrow> local_storage" where
  "removeItem st k = st\<lparr>items := (items st)(k := None)\<rparr>"

text \<open>The lines the module writes to the console, one constructor per call site.\<close>

datatype console_message =
    Warn_cache_too_large
  | Log_persisted nat
  | Warn_persist_failed js_exn
  | Log_version_mismatch string
  | Log_expired
  | Log_restored nat jsvalue
  | Warn_hydrate_failed js_exn

fun is_warning :: "console_message \<Rightarrow> bool" where
  "is_warning Warn_cache_too_large = True"
| "is_warning (Warn_persist_failed e) = True"
| "is_warning (Warn_hydrate_failed e) = True"
| "is_warning m = False"

record environment =
  localStorage :: local_storage
  console :: "console_message list"

subsection \<open>Constants of the module\<close>

definition CACHE_SCHEMA_VERSION :: int where
  "CACHE_SCHEMA_VERSION = 2"

definition PERSISTER_KEY :: string where
  "PERSISTER_KEY = ''zenchat_query_cache''"

definition EXCLUDED_QUERY_KEYS :: "string list" where
  "EXCLUDED_QUERY_KEYS = [''zip-tasks'', ''posts'', ''accounts'', ''post-images'']"

subsection \<open>The runtime\<close>

text \<open>
  What the module calls and neither defines nor fixes: \<open>JSON.parse\<close>, which has to read
  whatever text the slot holds; the hash the cache files a query key under (the
  library's \<open>queryKeyHashFn\<close>); the text of a number; the conversion of a function, an
  array or an object to a string, which may throw; and the outcome of
  \<^verbatim>\<open>Date.now() - v > maxAge\<close> for a string, a function, an array or an object \<open>v\<close>, which
  is converted to a number first and may throw. Every function below takes them as a
  parameter, so what is proved holds for each of them.
\<close>

record js_runtime =
  JSON_parse :: "string \<Rightarrow> js_exn + jsvalue"
  hashKey :: "jsvalue list \<Rightarrow> string"
  Number_toString :: "int \<Rightarrow> string"
  ToString_object :: "jsvalue \<Rightarrow> js_exn + string"
  older_object :: "int \<Rightarrow> jsvalue \<Rightarrow> int \<Rightarrow> js_exn + bool"

subsection \<open>persistQueryCache\<close>

text \<open>\<^verbatim>\<open>const firstKey = query.queryKey[0]\<close>: undefined for the empty key.\<close>

definition firstKey :: "query \<Rightarrow> jsvalue" where
  "firstKey q = (case queryKey q of [] \<Rightarrow> JUndefined | k # ks \<Rightarrow> k)"

text \<open>
  \<^verbatim>\<open>typeof firstKey === "string" && EXCLUDED_QUERY_KEYS.includes(firstKey)\<close>
\<close>

definition is_excluded :: "query \<Rightarrow> bool" where
  "is_excluded q = (case firstKey q of JStr s \<Rightarrow> s \<in> set EXCLUDED_QUERY_KEYS | _ \<Rightarrow> False)"

text \<open>The callback of \<open>queries.filter\<close>.\<close>

definition persist_filter :: "query \<Rightarrow> bool" where
  "persist_filter q =
     (if status (state q) \<noteq> Success \<or> \<not> truthy (data (state q)) then False
      else if is_excluded q then False
      else True)"

text \<open>The callback of \<open>.map\<close>: the object literal written for a query.\<close>

definition persist_entry :: "query \<Rightarrow> jsvalue" where
  "persist_entry q =
     JObj [(''queryKey'', JArr (queryKey q)),
           (''data'', data (state q)),
           (''dataUpdatedAt'', JNum (dataUpdatedAt (state q)))]"

definition persistableQueries :: "query_client \<Rightarrow> jsvalue list" where
  "persistableQueries client = map persist_entry (filter persist_filter client)"

text \<open>The object handed to \<open>JSON.stringify\<close>; \<open>now\<close> is what \<open>Date.now()\<close> returns.\<close>

definition cache_object :: "int \<Rightarrow> jsvalue list \<Rightarrow> jsvalue" where
  "cache_object now entries =
     JObj [(''version'', JNum CACHE_SCHEMA_VERSION),
           (''timestamp'', JNum now),
           (''queries'', JArr entries)]"

text \<open>
  The body of the \<open>try\<close> block: \<open>Inl\<close> is the exception it throws. Reading \<open>.length\<close> of
  an undefined serialization would be a TypeError.
\<close>

definition persist_try ::
  "js_runtime \<Rightarrow> int \<Rightarrow> query_client \<Rightarrow> environment \<Rightarrow> js_exn + environment" where
  "persist_try rt now client env =
     (let entries = persistableQueries client in
      if length entries = 0 then Inr env
      else
        (case JSON_stringify (Number_toString rt) (cache_object now entries) of
           Inl e \<Rightarrow> Inl e
         | Inr None \<Rightarrow> Inl TypeError
         | Inr (Some cacheData) \<Rightarrow>
             if length cacheData > 2 * 1024 * 1024
             then Inr (env\<lparr>console := console env @ [Warn_cache_too_large]\<rparr>)
             else
               (case setItem (localStorage env) PERSISTER_KEY cacheData of
                  Inl e \<Rightarrow> Inl e
                | Inr st \<Rightarrow>
                    Inr (env\<lparr>localStorage := st,
                              console := console env @ [Log_persisted (length entries)]\<rparr>))))"

text \<open>
  The \<open>catch\<close> block. On a QuotaExceededError the slot is removed (inside a \<open>try\<close> of its
  own) and nothing is logged; any other exception is logged as a warning.
\<close>

definition persist_catch :: "js_exn \<Rightarrow> environment \<Rightarrow> js_exn + environment" where
  "persist_catch error env =
     (if error = DOMException ''QuotaExceededError''
      then Inr (env\<lparr>localStorage := removeItem (localStorage env) PERSISTER_KEY\<rparr>)
      else Inr (env\<lparr>console := console env @ [Warn_persist_failed error]\<rparr>))"

text \<open>
  The function: \<open>Inr\<close> is a normal return with the environment it leaves, \<open>Inl\<close> an
  exception that reaches the caller.
\<close>

definition persistQueryCache ::
  "js_runtime \<Rightarrow> int \<Rightarrow> query_client \<Rightarrow> environment \<Rightarrow> js_exn + environment" where
  "persistQueryCache rt now client env =
     (case persist_try rt now client env of
        Inr env' \<Rightarrow> Inr env'
      | Inl error \<Rightarrow> persist_catch error env)"

subsection \<open>hydrateQueryCache\<close>

text \<open>
  The library's \<open>setQueryData(queryKey, data, { updatedAt })\<close>: nothing happens when the
  data is undefined; otherwise the query filed under the key's hash is looked up, built
  and appended if there is none, and its state becomes a success with this data and
  \<open>dataUpdatedAt = updatedAt ?? Date.now()\<close>.
\<close>

definition setQueryData ::
  "js_runtime \<Rightarrow> int \<Rightarrow> jsvalue list \<Rightarrow> jsvalue \<Rightarrow> int option \<Rightarrow> query_client \<Rightarrow> query_client" where
  "setQueryData rt now key d updatedAt client =
     (if d = JUndefined then client
      else
        (let h = hashKey rt key;
             st = \<lparr>data = d,
                   dataUpdatedAt = (case updatedAt of None \<Rightarrow> now | Some t \<Rightarrow> t),
                   status = Success\<rparr>
         in if \<exists>q \<in> set client. queryHash q = h
            then map (\<lambda>q. if queryHash q = h then q\<lparr>state := st\<rparr> else q) client
            else client @ [\<lparr>queryKey = key, queryHash = h, state = st\<rparr>]))"

text \<open>
  The conversion to a string inside a template literal (\<^verbatim>\<open>v${version}\<close>): it cannot
  fail on a primitive value.
\<close>

fun template_text :: "js_runtime \<Rightarrow> jsvalue \<Rightarrow> js_exn + string" where
  "template_text rt JUndefined = Inr ''undefined''"
| "template_text rt JNull = Inr ''null''"
| "template_text rt (JBool b) = Inr (if b then ''true'' else ''false'')"
| "template_text rt (JNum n) = Inr (Number_toString rt n)"
| "template_text rt JNaN = Inr ''NaN''"
| "template_text rt JPosInfinity = Inr ''Infinity''"
| "template_text rt JNegInfinity = Inr ''-Infinity''"
| "template_text rt (JBigInt n) = Inr (show_int n)"
| "template_text rt (JStr s) = Inr s"
| "template_text rt v = ToString_object rt v"

text \<open>
  \<^verbatim>\<open>Date.now() - timestamp > maxAge\<close> for an untyped timestamp: undefined and NaN give
  NaN, which compares false; null is 0, a boolean 0 or 1; the difference with an infinity
  is the opposite infinity; a BigInt cannot be subtracted from a number (TypeError).
\<close>

fun older_than :: "js_runtime \<Rightarrow> int \<Rightarrow> jsvalue \<Rightarrow> int \<Rightarrow> js_exn + bool" where
  "older_than rt now JUndefined maxAge = Inr False"
| "older_than rt now JNull maxAge = Inr (now - 0 > maxAge)"
| "older_than rt now (JBool b) maxAge = Inr (now - (if b then 1 else 0) > maxAge)"
| "older_than rt now (JNum t) maxAge = Inr (now - t > maxAge)"
| "older_than rt now JNaN maxAge = Inr False"
| "older_than rt now JPosInfinity maxAge = Inr False"
| "older_than rt now JNegInfinity maxAge = Inr True"
| "older_than rt now (JBigInt t) maxAge = Inl TypeError"
| "older_than rt now v maxAge = older_object rt now v maxAge"

text \<open>
  \<^verbatim>\<open>for (const ... of queries)\<close>: an array yields its elements, a string its
  characters, anything else is not iterable.
\<close>

fun iterate :: "jsvalue \<Rightarrow> js_exn + jsvalue list" where
  "iterate (JArr xs) = Inr xs"
| "iterate (JStr s) = Inr (map (\<lambda>c. JStr [c]) s)"
| "iterate v = Inl TypeError"

text \<open>
  The \<open>updatedAt\<close> option as the library's signature types it (\<open>number | undefined\<close>; null
  falls to \<open>Date.now()\<close> like undefined). \<open>None\<close>: the value is outside that type, or not
  a finite number.
\<close>

fun updatedAt_option :: "jsvalue \<Rightarrow> int option option" where
  "updatedAt_option JUndefined = Some None"
| "updatedAt_option JNull = Some None"
| "updatedAt_option (JNum t) = Some (Some t)"
| "updatedAt_option v = None"

text \<open>
  The loop over the persisted entries, with the count of restored entries. Each entry
  is destructured (a TypeError on null or undefined, after the entries before it were
  restored) and handed to \<open>setQueryData\<close>. The cache is typed: a slot whose entry has
  data under a query key that is not an array, or under a \<open>dataUpdatedAt\<close> that is not a
  number, would put a query outside the library's types into the cache, and the model
  does not follow it (\<open>Outside_types\<close>); nor does it follow data that is a function, which
  the library would call as an updater and which \<open>JSON.parse\<close> never returns.
\<close>

datatype restore_result =
    Restored query_client nat
  | Restore_threw js_exn query_client
  | Outside_types

fun restore_entries ::
  "js_runtime \<Rightarrow> int \<Rightarrow> jsvalue list \<Rightarrow> query_client \<Rightarrow> nat \<Rightarrow> restore_result" where
  "restore_entries rt now [] client restoredCount = Restored client restoredCount"
| "restore_entries rt now (x # xs) client restoredCount =
     (case (getProp x ''queryKey'', getProp x ''data'', getProp x ''dataUpdatedAt'') of
        (Inr k, Inr d, Inr u) \<Rightarrow>
          if d = JUndefined then restore_entries rt now xs client (Suc restoredCount)
          else if d = JFunction then Outside_types
          else
            (case (k, updatedAt_option u) of
               (JArr key, Some updatedAt) \<Rightarrow>
                 restore_entries rt now xs
                   (setQueryData rt now key d updatedAt client) (Suc restoredCount)
             | _ \<Rightarrow> Outside_types)
      | _ \<Rightarrow> Restore_threw TypeError client)"

text \<open>
  The body of the \<open>try\<close> block, run on the text found in the slot. It ends by returning,
  by throwing (with the cache as far as it was restored), or outside the types. The log
  of a version mismatch converts the version to a string before the slot is removed; the
  last log converts the timestamp, which the age check has converted already.
\<close>

datatype hydrate_result =
    Returned query_client environment
  | Threw js_exn query_client environment
  | Untyped

definition hydrate_try ::
  "js_runtime \<Rightarrow> int \<Rightarrow> query_client \<Rightarrow> environment \<Rightarrow> string \<Rightarrow> hydrate_result" where
  "hydrate_try rt now client env stored =
     (case JSON_parse rt stored of
        Inl e \<Rightarrow> Threw e client env
      | Inr parsed \<Rightarrow>
          (case (getProp parsed ''version'', getProp parsed ''timestamp'',
                 getProp parsed ''queries'') of
             (Inr version, Inr timestamp, Inr queries) \<Rightarrow>
               if version \<noteq> JNum CACHE_SCHEMA_VERSION
               then
                 (case template_text rt version of
                    Inl e \<Rightarrow> Threw e client env
                  | Inr shown \<Rightarrow>
                      Returned client
                        (env\<lparr>localStorage := removeItem (localStorage env) PERSISTER_KEY,
                             console := console env @ [Log_version_mismatch shown]\<rparr>))
               else
                 (case older_than rt now timestamp (24 * 60 * 60 * 1000) of
                    Inl e \<Rightarrow> Threw e client env
                  | Inr True \<Rightarrow>
                      Returned client
                        (env\<lparr>localStorage := removeItem (localStorage env) PERSISTER_KEY,
                             console := console env @ [Log_expired]\<rparr>)
                  | Inr False \<Rightarrow>
                      (case iterate queries of
                         Inl e \<Rightarrow> Threw e client env
                       | Inr entries \<Rightarrow>
                           (case restore_entries rt now entries client 0 of
                              Restored client' restoredCount \<Rightarrow>
                                Returned client'
                                  (env\<lparr>console := console env @
                                         [Log_restored restoredCount timestamp]\<rparr>)
                            | Restore_threw e client' \<Rightarrow> Threw e client' env
                            | Outside_types \<Rightarrow> Untyped)))
           | _ \<Rightarrow> Threw TypeError client env))"

text \<open>
  The function, on the cache and the environment: \<open>if (!stored) return\<close> covers the
  absent item and the empty string; the \<open>catch\<close> block warns and removes the slot.
  \<open>None\<close> only where the slot holds entries outside the library's types.
\<close>

definition hydrateQueryCache ::
  "js_runtime \<Rightarrow> int \<Rightarrow> query_client \<Rightarrow> environment \<Rightarrow> (query_client \<times> environment) option" where
  "hydrateQueryCache rt now client env =
     (case getItem (localStorage env) PERSISTER_KEY of
        None \<Rightarrow> Some (client, env)
      | Some stored \<Rightarrow>
          if stored = [] then Some (client, env)
          else
            (case hydrate_try rt now client env stored of
               Returned client' env' \<Rightarrow> Some (client', env')
             | Threw error client' env' \<Rightarrow>
                 Some (client',
                       env'\<lparr>console := console env' @ [Warn_hydrate_failed error],
                            localStorage := removeItem (localStorage env') PERSISTER_KEY\<rparr>)
             | Untyped \<Rightarrow> None))"

subsection \<open>Example caches and environments\<close>

text \<open>
  Concrete inputs for the instances below. \<open>text_of v\<close> is the text \<open>JSON.stringify\<close>
  writes for \<open>v\<close>, with numbers in decimal notation; \<open>reading_back v\<close> is a runtime whose
  parser reads exactly that text, as the value \<open>JSON.parse\<close> returns for it, and whose
  hash is the text of the key.
\<close>

definition text_of :: "jsvalue \<Rightarrow> string" where
  "text_of v = (case JSON_stringify show_int v of Inr (Some s) \<Rightarrow> s | _ \<Rightarrow> [])"

definition reading_back :: "jsvalue \<Rightarrow> js_runtime" where
  "reading_back v =
     \<lparr>JSON_parse = (\<lambda>s. if JSON_stringify show_int v = Inr (Some s) then Inr (json_image v)
                          else Inl SyntaxError),
      hashKey = (\<lambda>key. text_of (JArr key)),
      Number_toString = show_int,
      ToString_object = (\<lambda>v. Inr ''[object Object]''),
      older_object = (\<lambda>now v maxAge. Inr False)\<rparr>"

text \<open>A query that was fetched with success, as the cache holds it.\<close>

definition cached :: "jsvalue list \<Rightarrow> jsvalue \<Rightarrow> int \<Rightarrow> query" where
  "cached key d t =
     \<lparr>queryKey = key, queryHash = text_of (JArr key),
      state = \<lparr>data = d, dataUpdatedAt = t, status = Success\<rparr>\<rparr>"

text \<open>
  Three queries: the post list (\<open>queryKeys.posts.list()\<close>, an excluded category), the
  statistics overview, and a statistic whose data is the number 0.
\<close>

definition q_posts :: query where
  "q_posts = cached [JStr ''posts'', JStr ''list'', JUndefined] (JArr [JStr ''p1'']) 500"

definition q_stats :: query where
  "q_stats = cached [JStr ''stats'', JStr ''overview''] (JObj [(''total'', JNum 7)]) 600"

definition q_zero :: query where
  "q_zero = cached [JStr ''stats'', JStr ''accounts''] (JNum 0) 700"

definition example_client :: query_client where
  "example_client = [q_posts, q_stats, q_zero]"

text \<open>
  A query whose data cannot be serialized; one whose data is a function; one whose data
  is \<open>2 * 1024 * 1024\<close> letters a; and one whose data is 1100000 letters e with an acute
  accent (U+00E9), each of them one code unit and two bytes of UTF-8.
\<close>

definition q_bigint :: query where
  "q_bigint = cached [JStr ''stats'', JStr ''overview''] (JBigInt 1) 600"

definition long_string :: string where
  "long_string = replicate (2 * 1024 * 1024) (CHR ''a'')"

definition q_long :: query where
  "q_long = cached [JStr ''stats'', JStr ''overview''] (JStr long_string) 600"

definition q_function :: query where
  "q_function = cached [JStr ''stats'', JStr ''overview''] JFunction 600"

definition accented_string :: string where
  "accented_string = replicate 1100000 (CHR 0xE9)"

definition q_accented :: query where
  "q_accented = cached [JStr ''stats'', JStr ''overview''] (JStr accented_string) 600"

text \<open>A snapshot as schema version 1 wrote it.\<close>

definition v1_snapshot :: jsvalue where
  "v1_snapshot =
     JObj [(''version'', JNum 1), (''timestamp'', JNum 1000),
           (''queries'', JArr [persist_entry q_stats])]"

text \<open>
  The runtime of the examples, and an environment with an empty console: what the slot
  holds, and the quota.
\<close>

definition example_runtime :: js_runtime where
  "example_runtime = reading_back (cache_object 1000 (persistableQueries example_client))"

definition storage_with :: "string option \<Rightarrow> nat \<Rightarrow> environment" where
  "storage_with slot n =
     \<lparr>localStorage = \<lparr>items = (\<lambda>k. if k = PERSISTER_KEY then slot else None), quota = n\<rparr>,
      console = []\<rparr>"

section \<open>Properties\<close>

subsection \<open>Retry policy\<close>

lemma retry_iff:
  "retry failureCount error \<longleftrightarrow>
     failureCount < 3 \<and>
     (\<forall>code. error = Error_object (Some code) \<longrightarrow> \<not> (400 \<le> code \<and> code < 500))"
  by (auto simp: retry_def split: js_error.splits option.splits)

text \<open>
  C4. The retry predicate of query fetches. The failure count decides, except for a
  status in 400..499: a retry is granted exactly when the failure count is below 3 and
  the error is not an object whose status lies in 400..499. So every error with another
  status (a 503) or with none (an object with no status property, or a thrown value that
  is not an object, as a network failure is) is retried at the failure counts 0, 1 and
  2, three times, and given up at 3; for no error are there more than three failure
  counts at which the answer is yes; and for a status in 400..499 the answer is no at
  every failure count. The query option of the client is this predicate.
\<close>

theorem query_retry_predicate:
  "(retry failureCount error \<longleftrightarrow>
      failureCount < 3 \<and>
      \<not> (\<exists>code. error = Error_object (Some code) \<and> 400 \<le> code \<and> code < 500)) \<and>
   (3 \<le> failureCount \<longrightarrow> \<not> retry failureCount error) \<and>
   (400 \<le> code \<and> code < 500 \<longrightarrow> \<not> retry failureCount (Error_object (Some code))) \<and>
   (\<not> (400 \<le> code \<and> code < 500) \<longrightarrow>
      (retry failureCount (Error_object (Some code)) \<longleftrightarrow> failureCount < 3)) \<and>
   (retry failureCount (Error_object None) \<longleftrightarrow> failureCount < 3) \<and>
   (retry failureCount Not_an_object \<longleftrightarrow> failureCount < 3) \<and>
   card {n. retry n error} \<le> 3 \<and>
   shouldRetry queries_retry failureCount error = retry failureCount error"
proof -
  have "{n. retry n error} \<subseteq> {0, 1, 2}"
    by (auto simp: retry_iff)
  then have "card {n. retry n error} \<le> card {0::nat, 1, 2}"
    by (intro card_mono) simp_all
  then have "card {n. retry n error} \<le> 3"
    by simp
  then show ?thesis
    by (auto simp: retry_iff queries_retry_def)
qed

text \<open>
  The instances: status 404 is refused at the first failure; status 503, status 399,
  status 500 and an error without status are retried at the failure counts 0, 1 and 2
  and refused at 3.
\<close>

theorem query_retry_predicate_witness:
  "\<not> retry 3 (Error_object None) \<and> \<not> retry 3 (Error_object (Some 503)) \<and>
   \<not> retry 0 (Error_object (Some 404)) \<and>
   \<not> retry 0 (Error_object (Some 400)) \<and> \<not> retry 0 (Error_object (Some 499)) \<and>
   retry 0 (Error_object (Some 503)) \<and> retry 1 (Error_object (Some 503)) \<and>
   retry 2 (Error_object (Some 503)) \<and>
   retry 2 (Error_object (Some 399)) \<and> retry 2 (Error_object (Some 500)) \<and>
   retry 0 (Error_object None) \<and> retry 1 (Error_object None) \<and> retry 2 (Error_object None) \<and>
   retry 2 Not_an_object \<and>
   card {n. retry n (Error_object (Some 503))} \<le> 3 \<and>
   \<not> shouldRetry queries_retry 0 (Error_object (Some 404)) \<and>
   shouldRetry queries_retry 0 (Error_object (Some 503))"
  using query_retry_predicate [of 3 "Error_object None" 503]
        query_retry_predicate [of 0 "Error_object (Some 404)" 404]
        query_retry_predicate [of 0 "Error_object (Some 400)" 400]
        query_retry_predicate [of 0 "Error_object (Some 499)" 499]
        query_retry_predicate [of 0 "Error_object (Some 503)" 503]
        query_retry_predicate [of 1 "Error_object (Some 503)" 503]
        query_retry_predicate [of 2 "Error_object (Some 503)" 399]
        query_retry_predicate [of 2 "Error_object None" 500]
        query_retry_predicate [of 1 "Error_object None" 500]
        query_retry_predicate [of 0 "Error_object None" 500]
  by simp

lemma retryDelay_capped: "5 \<le> n \<Longrightarrow> retryDelay n = 30000"
proof -
  assume "5 \<le> n"
  then have "(2::int) ^ 5 \<le> 2 ^ n"
    by (intro power_increasing) simp_all
  then show ?thesis
    by (simp add: retryDelay_def)
qed

lemma retryDelay_doubles: "n < 5 \<Longrightarrow> retryDelay n = 1000 * 2 ^ n"
proof -
  assume "n < 5"
  then have "(2::int) ^ n \<le> 2 ^ 4"
    by (intro power_increasing) simp_all
  then show ?thesis
    by (simp add: retryDelay_def)
qed

text \<open>
  C5. The retry delay is \<open>min (1000 * 2 ^ n) 30000\<close> milliseconds for every attempt
  index \<open>n\<close>: 1000, 2000 and 4000 for the first three, doubling up to 16000 at index 4,
  30000 from index 5 on, and never more than 30000.
\<close>

theorem retryDelay_backoff:
  "retryDelay n = min (1000 * 2 ^ n) 30000 \<and>
   retryDelay 0 = 1000 \<and> retryDelay 1 = 2000 \<and> retryDelay 2 = 4000 \<and>
   retryDelay n = (if n < 5 then 1000 * 2 ^ n else 30000) \<and>
   retryDelay n \<le> 30000"
proof -
  have "retryDelay n = (if n < 5 then 1000 * 2 ^ n else 30000)"
    using retryDelay_doubles [of n] retryDelay_capped [of n] by simp
  then show ?thesis
    by (simp add: retryDelay_def)
qed

text \<open>
  C6, as the code has it. The mutation option is the number 1: a mutation is retried
  while the failure count is below 1, that is once, whatever the error. The status of the
  error plays no part, so a mutation that fails with 404 is retried once all the same.
\<close>

theorem mutation_retry_once:
  "shouldRetry mutations_retry failureCount error = (failureCount < 1)"
  by (simp add: mutations_retry_def)

text \<open>
  The claim as the specification states it fails: after its first failure with status
  404 a mutation is retried, where the query predicate refuses.
\<close>

theorem mutation_retry_ignores_status:
  "shouldRetry mutations_retry 0 (Error_object (Some 404)) \<and>
   \<not> shouldRetry queries_retry 0 (Error_object (Some 404))"
  by (simp add: mutations_retry_def queries_retry_def retry_def)

subsection \<open>Evaluating the examples\<close>

lemmas example_defs =
  example_client_def q_posts_def q_stats_def q_zero_def cached_def text_of_def storage_with_def
  persistableQueries_def persist_filter_def is_excluded_def firstKey_def persist_entry_def
  cache_object_def EXCLUDED_QUERY_KEYS_def CACHE_SCHEMA_VERSION_def PERSISTER_KEY_def
  show_int_def digits_of.simps quote_def escape_char_def digit_char_def

lemma example_persistable: "filter persist_filter example_client = [q_stats]"
  by (simp add: example_defs)

lemma example_text:
  "\<exists>s. JSON_stringify show_int (cache_object 1000 (persistableQueries example_client)) =
         Inr (Some s) \<and>
       length s = 115"
  by (simp add: example_defs)

lemma reading_back_parse:
  "JSON_stringify show_int v = Inr (Some s) \<Longrightarrow>
     JSON_parse (reading_back v) s = Inr (json_image v)"
  by (simp add: reading_back_def)

lemma reading_back_number [simp]: "Number_toString (reading_back v) = show_int"
  by (simp add: reading_back_def)

lemma example_runtime_number [simp]: "Number_toString example_runtime = show_int"
  by (simp add: example_runtime_def)

lemma text_of_eq: "JSON_stringify show_int v = Inr (Some s) \<Longrightarrow> text_of v = s"
  by (simp add: text_of_def)

lemma length_quote: "length s + 2 \<le> length (quote s)"
proof -
  have "length s \<le> length (concat (map escape_char s))"
    by (induction s) (auto simp: escape_char_def)
  then show ?thesis
    by (simp add: quote_def)
qed

lemma long_text:
  "\<exists>s. JSON_stringify show_int (cache_object 1000 (persistableQueries [q_long])) =
         Inr (Some s) \<and>
       2 * 1024 * 1024 < length s"
proof -
  have "length long_string = 2 * 1024 * 1024"
    by (simp add: long_string_def)
  with length_quote [of long_string] show ?thesis
    by (simp add: q_long_def cached_def persistableQueries_def persist_filter_def
        is_excluded_def firstKey_def persist_entry_def cache_object_def
        EXCLUDED_QUERY_KEYS_def long_string_def)
qed

lemma utf8_size_append: "utf8_size (a @ b) = utf8_size a + utf8_size b"
  by (simp add: utf8_size_def)

lemma utf8_size_Cons:
  "utf8_size (c # s) = (if (of_char c :: nat) < 128 then 1 else 2) + utf8_size s"
  by (simp add: utf8_size_def)

lemma accented_string_facts:
  "accented_string \<noteq> []"
  "length accented_string = 1100000"
  "utf8_size accented_string = 2200000"
  "concat (map escape_char accented_string) = accented_string"
proof -
  have "utf8_size (replicate n (CHR 0xE9)) = 2 * n" for n
    by (induction n) (simp_all add: utf8_size_def)
  moreover have "concat (map escape_char (replicate n (CHR 0xE9))) = replicate n (CHR 0xE9)" for n
    by (induction n) (simp_all add: escape_char_def)
  ultimately show "accented_string \<noteq> []" "length accented_string = 1100000"
    "utf8_size accented_string = 2200000"
    "concat (map escape_char accented_string) = accented_string"
    by (simp_all add: accented_string_def)
qed

lemma accented_text:
  "\<exists>s. JSON_stringify show_int (cache_object 1000 (persistableQueries [q_accented])) =
         Inr (Some s) \<and>
       length s \<le> 2 * 1024 * 1024 \<and> length s \<le> 5000000 \<and> 2 * 1024 * 1024 < utf8_size s"
  by (simp add: q_accented_def example_defs accented_string_facts
      utf8_size_append utf8_size_Cons)

subsection \<open>persistQueryCache\<close>

lemma persistQueryCache_returns:
  "\<exists>env'. persistQueryCache rt now client env = Inr env'"
  by (simp add: persistQueryCache_def persist_catch_def split: sum.splits)

lemma persist_filter_iff:
  "persist_filter q \<longleftrightarrow>
     status (state q) = Success \<and> truthy (data (state q)) \<and> \<not> is_excluded q"
  by (auto simp: persist_filter_def)

lemma falsy_iff:
  "\<not> truthy v \<longleftrightarrow>
     v = JUndefined \<or> v = JNull \<or> v = JBool False \<or> v = JNum 0 \<or> v = JNaN \<or>
     v = JBigInt 0 \<or> v = JStr []"
  by (cases v) auto

lemma getProp_persist_entry:
  "getProp (persist_entry q) ''queryKey'' = Inr (JArr (queryKey q))"
  "getProp (persist_entry q) ''data'' = Inr (data (state q))"
  "getProp (persist_entry q) ''dataUpdatedAt'' = Inr (JNum (dataUpdatedAt (state q)))"
  by (simp_all add: persist_entry_def)

lemma is_excluded_key:
  "queryKey q = queryKey q' \<Longrightarrow> is_excluded q = is_excluded q'"
  by (simp add: is_excluded_def firstKey_def)

lemma persistable_data_truthy:
  assumes "e \<in> set (persistableQueries client)"
  shows "\<exists>d. getProp e ''data'' = Inr d \<and> truthy d"
  using assms by (auto simp: persistableQueries_def persist_filter_iff getProp_persist_entry)

text \<open>What the slot holds after the call: what it held, nothing, or the snapshot.\<close>

lemma persist_slot_cases:
  assumes "persistQueryCache rt now client env = Inr env'"
  shows "getItem (localStorage env') PERSISTER_KEY = getItem (localStorage env) PERSISTER_KEY \<or>
         getItem (localStorage env') PERSISTER_KEY = None \<or>
         JSON_stringify (Number_toString rt) (cache_object now (persistableQueries client)) =
           Inr (getItem (localStorage env') PERSISTER_KEY)"
  using assms
  by (auto simp: persistQueryCache_def persist_try_def persist_catch_def Let_def
        setItem_def getItem_def removeItem_def
      split: sum.splits option.splits if_splits)

lemma persist_writes:
  assumes "persistableQueries client \<noteq> []"
    and "JSON_stringify (Number_toString rt) (cache_object now (persistableQueries client)) =
           Inr (Some cacheData)"
    and "length cacheData \<le> 2 * 1024 * 1024"
    and "length cacheData \<le> quota (localStorage env)"
  shows "persistQueryCache rt now client env =
           Inr (env\<lparr>localStorage :=
                       (localStorage env)\<lparr>items :=
                          (items (localStorage env))(PERSISTER_KEY \<mapsto> cacheData)\<rparr>,
                    console := console env @
                      [Log_persisted (length (persistableQueries client))]\<rparr>)"
  using assms by (simp add: persistQueryCache_def persist_try_def setItem_def)

lemma persist_try_serialization_error:
  assumes "persistableQueries client \<noteq> []"
    and "JSON_stringify (Number_toString rt) (cache_object now (persistableQueries client)) =
           Inl e"
  shows "persist_try rt now client env = Inl e"
  using assms by (simp add: persist_try_def)

lemma persist_try_quota:
  assumes "persistableQueries client \<noteq> []"
    and "JSON_stringify (Number_toString rt) (cache_object now (persistableQueries client)) =
           Inr (Some cacheData)"
    and "length cacheData \<le> 2 * 1024 * 1024"
    and "quota (localStorage env) < length cacheData"
  shows "persist_try rt now client env = Inl (DOMException ''QuotaExceededError'')"
  using assms by (simp add: persist_try_def setItem_def)

lemma stringify_only_TypeError:
  "JSON_stringify nt v = Inl e \<Longrightarrow> e = TypeError"
  "stringify_elements nt xs = Inl e \<Longrightarrow> e = TypeError"
  "stringify_properties nt ps = Inl e \<Longrightarrow> e = TypeError"
  by (induction nt v and nt xs and nt ps
      rule: JSON_stringify_stringify_elements_stringify_properties.induct)
     (auto split: sum.splits)

lemma stringify_object_nonempty:
  "JSON_stringify nt (JObj ps) = Inr (Some s) \<Longrightarrow> s \<noteq> []"
  by (auto split: sum.splits)

lemma getItem_removeItem: "getItem (removeItem st k) k = None"
  by (simp add: getItem_def removeItem_def)

text \<open>
  C7. Take a query whose key starts with a string of the exclusion list, whatever its
  status and data. The filter rejects it; no entry of the list the function serializes
  carries its key; and after the call the slot holds what it held before, or nothing, or
  the serialization of exactly that list. So no snapshot the function produces contains
  the query.
\<close>

theorem excluded_never_persisted:
  assumes "firstKey q = JStr s" and "s \<in> set EXCLUDED_QUERY_KEYS"
    and "persistQueryCache rt now client env = Inr env'"
  shows "\<not> persist_filter q \<and>
         (\<forall>e \<in> set (persistableQueries client).
            getProp e ''queryKey'' \<noteq> Inr (JArr (queryKey q))) \<and>
         (getItem (localStorage env') PERSISTER_KEY = getItem (localStorage env) PERSISTER_KEY \<or>
          getItem (localStorage env') PERSISTER_KEY = None \<or>
          JSON_stringify (Number_toString rt) (cache_object now (persistableQueries client)) =
            Inr (getItem (localStorage env') PERSISTER_KEY))"
proof -
  have ex: "is_excluded q"
    using assms(1,2) by (simp add: is_excluded_def)
  have "getProp e ''queryKey'' \<noteq> Inr (JArr (queryKey q))"
    if "e \<in> set (persistableQueries client)" for e
  proof -
    from that obtain q' where q': "persist_filter q'" "e = persist_entry q'"
      by (auto simp: persistableQueries_def)
    show ?thesis
    proof
      assume "getProp e ''queryKey'' = Inr (JArr (queryKey q))"
      then have "queryKey q' = queryKey q"
        by (simp add: q'(2) getProp_persist_entry)
      then have "is_excluded q'"
        using ex is_excluded_key by blast
      then show False
        using q'(1) by (simp add: persist_filter_iff)
    qed
  qed
  then show ?thesis
    using ex persist_slot_cases [OF assms(3)] by (simp add: persist_filter_iff)
qed

text \<open>
  The instance: the post list is in the cache next to two statistics; the snapshot is
  written, and it is the serialization of a list without the post list.
\<close>

theorem excluded_never_persisted_witness:
  "\<exists>env'.
     firstKey q_posts = JStr ''posts'' \<and> ''posts'' \<in> set EXCLUDED_QUERY_KEYS \<and>
     persistQueryCache example_runtime 1000 example_client (storage_with None 5000000) = Inr env' \<and>
     getItem (localStorage env') PERSISTER_KEY \<noteq> None \<and>
     \<not> persist_filter q_posts \<and>
     (\<forall>e \<in> set (persistableQueries example_client).
        getProp e ''queryKey'' \<noteq> Inr (JArr (queryKey q_posts))) \<and>
     (getItem (localStorage env') PERSISTER_KEY =
        getItem (localStorage (storage_with None 5000000)) PERSISTER_KEY \<or>
      getItem (localStorage env') PERSISTER_KEY = None \<or>
      JSON_stringify (Number_toString example_runtime)
        (cache_object 1000 (persistableQueries example_client)) =
        Inr (getItem (localStorage env') PERSISTER_KEY))"
proof -
  have k: "firstKey q_posts = JStr ''posts''"
    by (simp add: q_posts_def cached_def firstKey_def)
  have m: "''posts'' \<in> set EXCLUDED_QUERY_KEYS"
    by (simp add: EXCLUDED_QUERY_KEYS_def)
  obtain s where "JSON_stringify show_int (cache_object 1000 (persistableQueries example_client)) =
      Inr (Some s)" and len: "length s = 115"
    using example_text by blast
  then have s: "JSON_stringify (Number_toString example_runtime)
      (cache_object 1000 (persistableQueries example_client)) = Inr (Some s)"
    by simp
  have ne: "persistableQueries example_client \<noteq> []"
    by (simp add: persistableQueries_def example_persistable)
  have "persistQueryCache example_runtime 1000 example_client (storage_with None 5000000) =
      Inr ((storage_with None 5000000)\<lparr>localStorage :=
             (localStorage (storage_with None 5000000))\<lparr>items :=
                (items (localStorage (storage_with None 5000000)))(PERSISTER_KEY \<mapsto> s)\<rparr>,
           console := console (storage_with None 5000000) @
             [Log_persisted (length (persistableQueries example_client))]\<rparr>)"
    by (rule persist_writes [OF ne s]) (simp_all add: len storage_with_def)
  then obtain env' where
    p: "persistQueryCache example_runtime 1000 example_client (storage_with None 5000000) = Inr env'"
    and w: "getItem (localStorage env') PERSISTER_KEY \<noteq> None"
    by (simp add: getItem_def)
  from excluded_never_persisted [OF k m p] k m p w show ?thesis
    by blast
qed

text \<open>
  C8, as the code has it. The cap is on the length of the serialized text, the number
  of its code units, which is what \<open>cacheData.length\<close> counts. When some query is
  persistable (otherwise nothing is serialized) and the text of the snapshot is longer
  than \<open>2 * 1024 * 1024\<close> code units, the function returns without touching localStorage:
  the storage afterwards is the storage before, and the one thing added to the console
  is the warning.
\<close>

theorem oversized_snapshot_not_written:
  assumes "persistableQueries client \<noteq> []"
    and "JSON_stringify (Number_toString rt) (cache_object now (persistableQueries client)) =
           Inr (Some cacheData)"
    and "length cacheData > 2 * 1024 * 1024"
  shows "\<exists>env'. persistQueryCache rt now client env = Inr env' \<and>
           localStorage env' = localStorage env \<and>
           console env' = console env @ [Warn_cache_too_large] \<and>
           is_warning Warn_cache_too_large"
  using assms by (simp add: persistQueryCache_def persist_try_def)

text \<open>
  The instance: a query with \<open>2 * 1024 * 1024\<close> letters as its data, and a slot that holds
  an earlier snapshot, which stays.
\<close>

theorem oversized_snapshot_not_written_witness:
  "\<exists>env'.
     persistQueryCache example_runtime 1000 [q_long] (storage_with (Some ''earlier'') 5000000) =
       Inr env' \<and>
     localStorage env' = localStorage (storage_with (Some ''earlier'') 5000000) \<and>
     getItem (localStorage env') PERSISTER_KEY = Some ''earlier'' \<and>
     console env' = console (storage_with (Some ''earlier'') 5000000) @ [Warn_cache_too_large] \<and>
     is_warning Warn_cache_too_large"
proof -
  obtain s where "JSON_stringify show_int (cache_object 1000 (persistableQueries [q_long])) =
      Inr (Some s)" and len: "2 * 1024 * 1024 < length s"
    using long_text by blast
  then have s: "JSON_stringify (Number_toString example_runtime)
      (cache_object 1000 (persistableQueries [q_long])) = Inr (Some s)"
    by simp
  have ne: "persistableQueries [q_long] \<noteq> []"
    by (simp add: example_defs q_long_def long_string_def)
  from oversized_snapshot_not_written [OF ne s len, of "storage_with (Some ''earlier'') 5000000"]
  show ?thesis
    by (auto simp: storage_with_def getItem_def)
qed

text \<open>
  The claim as the specification states it, with the cap as a size of 2 MiB of
  serialized UTF-8, fails on text outside ASCII: the data of the one persistable query is
  1100000 letters of two bytes each, the serialized snapshot is larger than 2 MiB and
  no longer than \<open>2 * 1024 * 1024\<close> code units, and the function writes it over the earlier
  snapshot and logs the write, with no warning.
\<close>

theorem two_byte_snapshot_written:
  "\<exists>s env'.
     JSON_stringify show_int (cache_object 1000 (persistableQueries [q_accented])) =
       Inr (Some s) \<and>
     2 * 1024 * 1024 < utf8_size s \<and>
     persistQueryCache example_runtime 1000 [q_accented]
       (storage_with (Some ''earlier'') 5000000) = Inr env' \<and>
     getItem (localStorage env') PERSISTER_KEY = Some s \<and>
     console env' = [Log_persisted 1]"
proof -
  obtain s where s0: "JSON_stringify show_int
      (cache_object 1000 (persistableQueries [q_accented])) = Inr (Some s)"
    and len: "length s \<le> 2 * 1024 * 1024" "length s \<le> 5000000"
    and size: "2 * 1024 * 1024 < utf8_size s"
    using accented_text by blast
  from s0 have s: "JSON_stringify (Number_toString example_runtime)
      (cache_object 1000 (persistableQueries [q_accented])) = Inr (Some s)"
    by simp
  have ne: "persistableQueries [q_accented] \<noteq> []"
    by (simp add: example_defs q_accented_def accented_string_facts)
  have n: "length (persistableQueries [q_accented]) = 1"
    by (simp add: example_defs q_accented_def accented_string_facts)
  have q: "length s \<le> quota (localStorage (storage_with (Some ''earlier'') 5000000))"
    using len by (simp add: storage_with_def)
  from persist_writes [OF ne s len(1) q] n
  have "persistQueryCache example_runtime 1000 [q_accented]
          (storage_with (Some ''earlier'') 5000000) =
        Inr ((storage_with (Some ''earlier'') 5000000)
               \<lparr>localStorage :=
                  (localStorage (storage_with (Some ''earlier'') 5000000))
                    \<lparr>items := (items (localStorage (storage_with (Some ''earlier'') 5000000)))
                       (PERSISTER_KEY \<mapsto> s)\<rparr>,
                console := console (storage_with (Some ''earlier'') 5000000) @
                  [Log_persisted 1]\<rparr>)"
    by simp
  then obtain env' where
    "persistQueryCache example_runtime 1000 [q_accented]
       (storage_with (Some ''earlier'') 5000000) = Inr env'"
    "getItem (localStorage env') PERSISTER_KEY = Some s"
    "console env' = [Log_persisted 1]"
    by (simp add: getItem_def storage_with_def)
  with s0 size show ?thesis
    by blast
qed

text \<open>
  C9, as the code has it. The function returns normally on every input: whatever the
  \<open>try\<close> block throws, the result is what the \<open>catch\<close> block returns. On a
  QuotaExceededError the \<open>catch\<close> block removes the slot and logs nothing. On every other
  exception (the TypeError of a serialization, or any other DOMException, as the
  SecurityError of a blocked storage) it logs the exception as a warning and leaves
  localStorage as it was: the slot is not removed. The \<open>try\<close> block throws the
  QuotaExceededError when \<open>setItem\<close> fails for lack of quota, and the exception of
  \<open>JSON.stringify\<close> when the serialization fails.
\<close>

theorem persist_failure_semantics:
  "(\<exists>env'. persistQueryCache rt now client env = Inr env') \<and>
   (persist_try rt now client env = Inl error \<longrightarrow>
      persistQueryCache rt now client env = persist_catch error env) \<and>
   persist_catch (DOMException ''QuotaExceededError'') env =
     Inr (env\<lparr>localStorage := removeItem (localStorage env) PERSISTER_KEY\<rparr>) \<and>
   getItem (removeItem (localStorage env) PERSISTER_KEY) PERSISTER_KEY = None \<and>
   (error \<noteq> DOMException ''QuotaExceededError'' \<longrightarrow>
      persist_catch error env = Inr (env\<lparr>console := console env @ [Warn_persist_failed error]\<rparr>)) \<and>
   (persistableQueries client \<noteq> [] \<and>
    JSON_stringify (Number_toString rt) (cache_object now (persistableQueries client)) =
      Inr (Some cacheData) \<and>
    length cacheData \<le> 2 * 1024 * 1024 \<and>
    quota (localStorage env) < length cacheData \<longrightarrow>
      persistQueryCache rt now client env =
        Inr (env\<lparr>localStorage := removeItem (localStorage env) PERSISTER_KEY\<rparr>)) \<and>
   (persistableQueries client \<noteq> [] \<and>
    JSON_stringify (Number_toString rt) (cache_object now (persistableQueries client)) = Inl e \<longrightarrow>
      persistQueryCache rt now client env =
        Inr (env\<lparr>console := console env @ [Warn_persist_failed e]\<rparr>) \<and>
      e \<noteq> DOMException ''QuotaExceededError'')"
proof (intro conjI impI)
  show "\<exists>env'. persistQueryCache rt now client env = Inr env'"
    by (rule persistQueryCache_returns)
  show "persist_catch (DOMException ''QuotaExceededError'') env =
      Inr (env\<lparr>localStorage := removeItem (localStorage env) PERSISTER_KEY\<rparr>)"
    by (simp add: persist_catch_def)
  show "getItem (removeItem (localStorage env) PERSISTER_KEY) PERSISTER_KEY = None"
    by (rule getItem_removeItem)
next
  assume "persist_try rt now client env = Inl error"
  then show "persistQueryCache rt now client env = persist_catch error env"
    by (simp add: persistQueryCache_def)
next
  assume "error \<noteq> DOMException ''QuotaExceededError''"
  then show "persist_catch error env =
      Inr (env\<lparr>console := console env @ [Warn_persist_failed error]\<rparr>)"
    by (simp add: persist_catch_def)
next
  assume "persistableQueries client \<noteq> [] \<and>
    JSON_stringify (Number_toString rt) (cache_object now (persistableQueries client)) =
      Inr (Some cacheData) \<and>
    length cacheData \<le> 2 * 1024 * 1024 \<and>
    quota (localStorage env) < length cacheData"
  then have "persist_try rt now client env = Inl (DOMException ''QuotaExceededError'')"
    by (blast intro: persist_try_quota)
  then show "persistQueryCache rt now client env =
      Inr (env\<lparr>localStorage := removeItem (localStorage env) PERSISTER_KEY\<rparr>)"
    by (simp add: persistQueryCache_def persist_catch_def)
next
  assume a: "persistableQueries client \<noteq> [] \<and>
    JSON_stringify (Number_toString rt) (cache_object now (persistableQueries client)) = Inl e"
  then have t: "e = TypeError"
    by (blast dest: stringify_only_TypeError)
  from a have "persist_try rt now client env = Inl e"
    by (blast intro: persist_try_serialization_error)
  with t show "persistQueryCache rt now client env =
      Inr (env\<lparr>console := console env @ [Warn_persist_failed e]\<rparr>)"
    by (simp add: persistQueryCache_def persist_catch_def)
  from t show "e \<noteq> DOMException ''QuotaExceededError''"
    by simp
qed

text \<open>
  The instances: the example cache with a quota of ten characters (the slot, which
  held an earlier snapshot, is removed and nothing is logged); a query whose data is a
  BigInt (a warning, and the slot as it was); and the \<open>catch\<close> block on a SecurityError
  (a warning, and the slot as it was).
\<close>

theorem persist_failure_semantics_witness:
  "persistQueryCache example_runtime 1000 example_client (storage_with (Some ''earlier'') 10) =
     Inr ((storage_with (Some ''earlier'') 10)
            \<lparr>localStorage :=
               removeItem (localStorage (storage_with (Some ''earlier'') 10)) PERSISTER_KEY\<rparr>) \<and>
   persist_try example_runtime 1000 [q_bigint] (storage_with (Some ''earlier'') 5000000) =
     Inl TypeError \<and>
   persistQueryCache example_runtime 1000 [q_bigint] (storage_with (Some ''earlier'') 5000000) =
     Inr ((storage_with (Some ''earlier'') 5000000)
            \<lparr>console := console (storage_with (Some ''earlier'') 5000000) @
               [Warn_persist_failed TypeError]\<rparr>) \<and>
   persist_catch (DOMException ''SecurityError'') (storage_with (Some ''earlier'') 5000000) =
     Inr ((storage_with (Some ''earlier'') 5000000)
            \<lparr>console := console (storage_with (Some ''earlier'') 5000000) @
               [Warn_persist_failed (DOMException ''SecurityError'')]\<rparr>)"
proof -
  obtain s where "JSON_stringify show_int (cache_object 1000 (persistableQueries example_client)) =
      Inr (Some s)" and len: "length s = 115"
    using example_text by blast
  then have s: "JSON_stringify (Number_toString example_runtime)
      (cache_object 1000 (persistableQueries example_client)) = Inr (Some s)"
    by simp
  have ne: "persistableQueries example_client \<noteq> []"
    by (simp add: persistableQueries_def example_persistable)
  have q: "quota (localStorage (storage_with (Some ''earlier'') 10)) < length s"
    by (simp add: len storage_with_def)
  have ne': "persistableQueries [q_bigint] \<noteq> []"
    by (simp add: example_defs q_bigint_def)
  have b: "JSON_stringify (Number_toString example_runtime)
      (cache_object 1000 (persistableQueries [q_bigint])) = Inl TypeError"
    by (simp add: example_defs q_bigint_def)
  have t: "persist_try example_runtime 1000 [q_bigint]
      (storage_with (Some ''earlier'') 5000000) = Inl TypeError"
    by (rule persist_try_serialization_error [OF ne' b])
  have d: "DOMException ''SecurityError'' \<noteq> DOMException ''QuotaExceededError''"
    by simp
  from persist_failure_semantics
         [of example_runtime 1000 example_client "storage_with (Some ''earlier'') 10"
            TypeError s TypeError]
       persist_failure_semantics
         [of example_runtime 1000 "[q_bigint]" "storage_with (Some ''earlier'') 5000000"
            "DOMException ''SecurityError''" s TypeError]
       s len ne q ne' b t d
  show ?thesis
    by simp
qed

text \<open>
  The claim as the specification states it fails on a serialization error: the data of
  the one persistable query is a BigInt, \<open>JSON.stringify\<close> throws, and after the call the
  slot still holds the earlier snapshot.
\<close>

theorem serialization_error_keeps_slot:
  "JSON_stringify (Number_toString example_runtime)
     (cache_object 1000 (persistableQueries [q_bigint])) = Inl TypeError \<and>
   (\<exists>env'.
      persistQueryCache example_runtime 1000 [q_bigint]
        (storage_with (Some ''earlier'') 5000000) = Inr env' \<and>
      getItem (localStorage env') PERSISTER_KEY = Some ''earlier'' \<and>
      console env' = [Warn_persist_failed TypeError])"
  by (simp add: example_defs q_bigint_def persistQueryCache_def persist_try_def
      persist_catch_def getItem_def)

subsection \<open>hydrateQueryCache: snapshots that are discarded\<close>

lemma getProp_Inl_iff:
  "getProp v name = Inl e \<longleftrightarrow> (v = JUndefined \<or> v = JNull) \<and> e = TypeError"
  by (cases v) auto

lemma getProp_total: "getProp v a = Inr x \<Longrightarrow> \<exists>y. getProp v b = Inr y"
  by (cases v) auto

lemma hydrate_parse_error:
  assumes "getItem (localStorage env) PERSISTER_KEY = Some stored" and "stored \<noteq> []"
    and "JSON_parse rt stored = Inl e"
  shows "hydrateQueryCache rt now client env =
           Some (client, env\<lparr>console := console env @ [Warn_hydrate_failed e],
                             localStorage := removeItem (localStorage env) PERSISTER_KEY\<rparr>)"
  using assms by (simp add: hydrateQueryCache_def hydrate_try_def)

lemma hydrate_not_destructurable:
  assumes "getItem (localStorage env) PERSISTER_KEY = Some stored" and "stored \<noteq> []"
    and "JSON_parse rt stored = Inr parsed" and "parsed = JUndefined \<or> parsed = JNull"
  shows "hydrateQueryCache rt now client env =
           Some (client, env\<lparr>console := console env @ [Warn_hydrate_failed TypeError],
                             localStorage := removeItem (localStorage env) PERSISTER_KEY\<rparr>)"
  using assms by (auto simp: hydrateQueryCache_def hydrate_try_def)

text \<open>
  A version mismatch: the log, and the slot removed; or, where the version cannot be
  converted to a string for the log, the warning of the \<open>catch\<close> block, and the slot
  removed there.
\<close>

lemma hydrate_version_mismatch:
  assumes "getItem (localStorage env) PERSISTER_KEY = Some stored" and "stored \<noteq> []"
    and "JSON_parse rt stored = Inr parsed"
    and "getProp parsed ''version'' = Inr version" and "version \<noteq> JNum CACHE_SCHEMA_VERSION"
  shows "hydrateQueryCache rt now client env =
           Some (client,
             case template_text rt version of
               Inr shown \<Rightarrow>
                 env\<lparr>localStorage := removeItem (localStorage env) PERSISTER_KEY,
                     console := console env @ [Log_version_mismatch shown]\<rparr>
             | Inl e \<Rightarrow>
                 env\<lparr>console := console env @ [Warn_hydrate_failed e],
                     localStorage := removeItem (localStorage env) PERSISTER_KEY\<rparr>)"
proof -
  obtain timestamp queries where
    "getProp parsed ''timestamp'' = Inr timestamp" "getProp parsed ''queries'' = Inr queries"
    using getProp_total [OF assms(4)] by blast
  then show ?thesis
    using assms by (simp add: hydrateQueryCache_def hydrate_try_def split: sum.splits)
qed

lemma hydrate_expired:
  assumes "getItem (localStorage env) PERSISTER_KEY = Some stored" and "stored \<noteq> []"
    and "JSON_parse rt stored = Inr parsed"
    and "getProp parsed ''version'' = Inr (JNum CACHE_SCHEMA_VERSION)"
    and "getProp parsed ''timestamp'' = Inr (JNum t)"
    and "now - t > 24 * 60 * 60 * 1000"
  shows "hydrateQueryCache rt now client env =
           Some (client, env\<lparr>localStorage := removeItem (localStorage env) PERSISTER_KEY,
                             console := console env @ [Log_expired]\<rparr>)"
proof -
  obtain queries where "getProp parsed ''queries'' = Inr queries"
    using getProp_total [OF assms(4)] by blast
  then show ?thesis
    using assms by (simp add: hydrateQueryCache_def hydrate_try_def)
qed

lemma hydrate_discards_old:
  assumes "getItem (localStorage env) PERSISTER_KEY = Some stored" and "stored \<noteq> []"
    and "JSON_parse rt stored = Inr parsed"
    and "getProp parsed ''timestamp'' = Inr (JNum t)"
    and "now - t > 24 * 60 * 60 * 1000"
  shows "\<exists>env'. hydrateQueryCache rt now client env = Some (client, env') \<and>
           getItem (localStorage env') PERSISTER_KEY = None"
proof -
  obtain version where v: "getProp parsed ''version'' = Inr version"
    using getProp_total [OF assms(4)] by blast
  show ?thesis
  proof (cases "version = JNum CACHE_SCHEMA_VERSION")
    case True
    with v have "getProp parsed ''version'' = Inr (JNum CACHE_SCHEMA_VERSION)"
      by simp
    from hydrate_expired [OF assms(1-3) this assms(4,5)] show ?thesis
      by (simp add: getItem_removeItem)
  next
    case False
    from hydrate_version_mismatch [OF assms(1-3) v False] show ?thesis
      by (simp add: getItem_removeItem split: sum.splits)
  qed
qed

text \<open>
  C2. The slot holds a text that parses, and the \<open>version\<close> of the parsed value is not
  the number \<open>CACHE_SCHEMA_VERSION\<close> (another number, a value of another type, a missing
  property, or a parsed value that has no properties at all). Then the function
  returns, the cache is the cache it was given, and the slot is gone.
\<close>

theorem version_mismatch_discards:
  assumes "getItem (localStorage env) PERSISTER_KEY = Some stored" and "stored \<noteq> []"
    and "JSON_parse rt stored = Inr parsed"
    and "getProp parsed ''version'' \<noteq> Inr (JNum CACHE_SCHEMA_VERSION)"
  shows "\<exists>env'. hydrateQueryCache rt now client env = Some (client, env') \<and>
           getItem (localStorage env') PERSISTER_KEY = None"
proof (cases "getProp parsed ''version''")
  case (Inl e)
  then have "parsed = JUndefined \<or> parsed = JNull"
    by (simp add: getProp_Inl_iff)
  from hydrate_not_destructurable [OF assms(1-3) this] show ?thesis
    by (simp add: getItem_removeItem)
next
  case (Inr version)
  with assms(4) have "version \<noteq> JNum CACHE_SCHEMA_VERSION"
    by simp
  from hydrate_version_mismatch [OF assms(1-3) Inr this] show ?thesis
    by (simp add: getItem_removeItem split: sum.splits)
qed

lemma v1_text: "\<exists>s. JSON_stringify show_int v1_snapshot = Inr (Some s) \<and> s \<noteq> []"
  by (simp add: example_defs v1_snapshot_def)

text \<open>
  The instance: the slot holds a snapshot of schema version 1 with one entry; the cache
  holds one query before and the same query after.
\<close>

theorem version_mismatch_discards_witness:
  "\<exists>env'.
     getProp (json_image v1_snapshot) ''version'' = Inr (JNum 1) \<and>
     hydrateQueryCache (reading_back v1_snapshot) 2000 [q_zero]
       (storage_with (Some (text_of v1_snapshot)) 5000000) = Some ([q_zero], env') \<and>
     getItem (localStorage env') PERSISTER_KEY = None"
proof -
  obtain s where s: "JSON_stringify show_int v1_snapshot = Inr (Some s)" and ne: "s \<noteq> []"
    using v1_text by blast
  have slot: "getItem (localStorage (storage_with (Some (text_of v1_snapshot)) 5000000))
      PERSISTER_KEY = Some s"
    by (simp add: storage_with_def getItem_def text_of_eq [OF s])
  have v: "getProp (json_image v1_snapshot) ''version'' = Inr (JNum 1)"
    by (simp add: v1_snapshot_def)
  then have "getProp (json_image v1_snapshot) ''version'' \<noteq> Inr (JNum CACHE_SCHEMA_VERSION)"
    by (simp add: CACHE_SCHEMA_VERSION_def)
  from version_mismatch_discards [OF slot ne reading_back_parse [OF s] this, of 2000 "[q_zero]"] v
  show ?thesis
    by blast
qed

text \<open>
  C3. The slot holds a text that parses, and the \<open>timestamp\<close> of the parsed value is a
  number more than 24 hours (86400000 ms) before the current time. Then the function
  returns, the cache is the cache it was given, and the slot is gone, whatever the
  version of the snapshot.
\<close>

theorem expired_snapshot_discards:
  assumes "getItem (localStorage env) PERSISTER_KEY = Some stored" and "stored \<noteq> []"
    and "JSON_parse rt stored = Inr parsed"
    and "getProp parsed ''timestamp'' = Inr (JNum t)"
    and "now - t > 24 * 60 * 60 * 1000"
  shows "\<exists>env'. hydrateQueryCache rt now client env = Some (client, env') \<and>
           getItem (localStorage env') PERSISTER_KEY = None"
  by (rule hydrate_discards_old [OF assms])

text \<open>
  The instance: the snapshot of the example cache, written at time 1000 with the
  current schema version, read one millisecond after it turned 24 hours old.
\<close>

theorem expired_snapshot_discards_witness:
  "\<exists>env'.
     getProp (json_image (cache_object 1000 (persistableQueries example_client))) ''version'' =
       Inr (JNum CACHE_SCHEMA_VERSION) \<and>
     (86401001::int) - 1000 > 24 * 60 * 60 * 1000 \<and>
     hydrateQueryCache (reading_back (cache_object 1000 (persistableQueries example_client)))
       86401001 [q_zero]
       (storage_with (Some (text_of (cache_object 1000 (persistableQueries example_client))))
          5000000) = Some ([q_zero], env') \<and>
     getItem (localStorage env') PERSISTER_KEY = None"
proof -
  let ?v = "cache_object 1000 (persistableQueries example_client)"
  obtain s where s: "JSON_stringify show_int ?v = Inr (Some s)" and len: "length s = 115"
    using example_text by blast
  have ne: "s \<noteq> []"
    using len by auto
  have slot: "getItem (localStorage (storage_with (Some (text_of ?v)) 5000000))
      PERSISTER_KEY = Some s"
    by (simp add: storage_with_def getItem_def text_of_eq [OF s])
  have v: "getProp (json_image ?v) ''version'' = Inr (JNum CACHE_SCHEMA_VERSION)"
    by (simp add: cache_object_def)
  have t: "getProp (json_image ?v) ''timestamp'' = Inr (JNum 1000)"
    by (simp add: cache_object_def)
  have old: "(86401001::int) - 1000 > 24 * 60 * 60 * 1000"
    by simp
  from expired_snapshot_discards [OF slot ne reading_back_parse [OF s] t old, of "[q_zero]"] v old
  show ?thesis
    by blast
qed

subsection \<open>hydrateQueryCache: restoring what persistQueryCache wrote\<close>

text \<open>
  The value read back serializes to the text it was read from, so the round trip through
  JSON changes nothing that \<open>JSON.stringify\<close> can see. A value has no text exactly when it
  is undefined or a function, and then nothing is read back for it.
\<close>

lemma stringify_json_image:
  "JSON_stringify nt (json_image v) = JSON_stringify nt v"
  "stringify_elements nt (json_image_elements xs) = stringify_elements nt xs"
  "stringify_properties nt (json_image_properties ps) = stringify_properties nt ps"
proof (induction nt v and nt xs and nt ps
    rule: JSON_stringify_stringify_elements_stringify_properties.induct)
  case (14 nt x xs)
  then show ?case
    by (cases x) (auto split: sum.splits option.splits)
next
  case (16 nt p ps)
  then show ?case
    by (cases "snd p") (auto split: sum.splits option.splits)
qed simp_all

lemma stringify_None_iff:
  "JSON_stringify nt v = Inr None \<longleftrightarrow> v = JUndefined \<or> v = JFunction"
  by (cases v) (auto split: sum.splits)

lemma json_image_undefined_iff:
  "json_image v = JUndefined \<longleftrightarrow> v = JUndefined \<or> v = JFunction"
  by (cases v) auto

lemma json_image_not_function: "json_image v \<noteq> JFunction"
  by (cases v) auto

lemma kept_iff:
  "JSON_stringify nt v \<noteq> Inr None \<longleftrightarrow> json_image v \<noteq> JUndefined"
  by (simp add: stringify_None_iff json_image_undefined_iff)

lemma getProp_json_image_entry:
  "getProp (json_image (persist_entry q)) ''queryKey'' =
     Inr (JArr (json_image_elements (queryKey q)))"
  "getProp (json_image (persist_entry q)) ''data'' = Inr (json_image (data (state q)))"
  "getProp (json_image (persist_entry q)) ''dataUpdatedAt'' = Inr (JNum (dataUpdatedAt (state q)))"
  by (simp_all add: persist_entry_def)

lemma json_image_elements_entries:
  "json_image_elements (map persist_entry qs) = map (\<lambda>q. json_image (persist_entry q)) qs"
  by (induction qs) (simp_all add: persist_entry_def)

lemma json_image_cache_object:
  "json_image (cache_object now (map persist_entry qs)) =
     JObj [(''version'', JNum CACHE_SCHEMA_VERSION), (''timestamp'', JNum now),
           (''queries'', JArr (map (\<lambda>q. json_image (persist_entry q)) qs))]"
  by (simp add: cache_object_def json_image_elements_entries)

text \<open>
  One turn of the loop on an entry as it is read back: \<open>setQueryData\<close> with the key, the
  data and the \<open>dataUpdatedAt\<close> of the query (and with undefined data, which it ignores,
  where the data had no text).
\<close>

lemma restore_entries_step:
  "restore_entries rt now (json_image (persist_entry q) # xs) client n =
     restore_entries rt now xs
       (setQueryData rt now (json_image_elements (queryKey q)) (json_image (data (state q)))
          (Some (dataUpdatedAt (state q))) client)
       (Suc n)"
  by (simp add: getProp_json_image_entry setQueryData_def json_image_not_function)

lemma setQueryData_undefined: "setQueryData rt now key JUndefined u client = client"
  by (simp add: setQueryData_def)

lemma setQueryData_new:
  assumes "d \<noteq> JUndefined" and "hashKey rt key \<notin> queryHash ` set client"
  shows "setQueryData rt now key d (Some t) client =
           client @ [\<lparr>queryKey = key, queryHash = hashKey rt key,
                       state = \<lparr>data = d, dataUpdatedAt = t, status = Success\<rparr>\<rparr>]"
  using assms by (auto simp: setQueryData_def Let_def image_iff)

lemma restore_entries_persisted:
  assumes "distinct (map (\<lambda>q. hashKey rt (json_image_elements (queryKey q))) qs)"
    and "\<forall>q \<in> set qs. hashKey rt (json_image_elements (queryKey q)) \<notin> queryHash ` set client"
  shows "restore_entries rt now (map (\<lambda>q. json_image (persist_entry q)) qs) client n =
           Restored
             (client @
              map (\<lambda>q. \<lparr>queryKey = json_image_elements (queryKey q),
                         queryHash = hashKey rt (json_image_elements (queryKey q)),
                         state = \<lparr>data = json_image (data (state q)),
                                   dataUpdatedAt = dataUpdatedAt (state q),
                                   status = Success\<rparr>\<rparr>)
                (filter (\<lambda>q. json_image (data (state q)) \<noteq> JUndefined) qs))
             (n + length qs)"
  using assms
proof (induction qs arbitrary: client n)
  case Nil
  then show ?case by simp
next
  case (Cons q qs)
  let ?key = "json_image_elements (queryKey q)"
  let ?new = "\<lparr>queryKey = ?key, queryHash = hashKey rt ?key,
                state = \<lparr>data = json_image (data (state q)),
                          dataUpdatedAt = dataUpdatedAt (state q), status = Success\<rparr>\<rparr>"
  let ?build = "\<lambda>q. \<lparr>queryKey = json_image_elements (queryKey q),
                       queryHash = hashKey rt (json_image_elements (queryKey q)),
                       state = \<lparr>data = json_image (data (state q)),
                                 dataUpdatedAt = dataUpdatedAt (state q),
                                 status = Success\<rparr>\<rparr>"
  have d: "distinct (map (\<lambda>q. hashKey rt (json_image_elements (queryKey q))) qs)"
    using Cons.prems(1) by simp
  have fresh: "hashKey rt ?key \<notin> queryHash ` set client"
    using Cons.prems(2) by simp
  show ?case
  proof (cases "json_image (data (state q)) = JUndefined")
    case True
    have "\<forall>p \<in> set qs. hashKey rt (json_image_elements (queryKey p))
            \<notin> queryHash ` set client"
      using Cons.prems(2) by simp
    from Cons.IH [OF d this, of "Suc n"] True show ?thesis
      by (simp add: restore_entries_step setQueryData_undefined del: restore_entries.simps)
  next
    case False
    have step: "setQueryData rt now ?key (json_image (data (state q)))
                  (Some (dataUpdatedAt (state q))) client = client @ [?new]"
      by (rule setQueryData_new [OF False fresh])
    have "\<forall>p \<in> set qs. hashKey rt (json_image_elements (queryKey p))
            \<notin> queryHash ` set (client @ [?new])"
      using Cons.prems(1,2) by (auto simp: image_iff)
    from Cons.IH [OF d this, of "Suc n"] False step show ?thesis
      by (simp add: restore_entries_step del: restore_entries.simps)
  qed
qed

lemma hydrate_try_persisted:
  assumes "JSON_parse rt text = Inr (json_image (cache_object t0 (persistableQueries client)))"
    and "t1 - t0 \<le> 24 * 60 * 60 * 1000"
    and "restore_entries rt t1
           (map (\<lambda>q. json_image (persist_entry q)) (filter persist_filter client)) [] 0 =
         Restored client' n"
  shows "hydrate_try rt t1 [] env text =
           Returned client' (env\<lparr>console := console env @ [Log_restored n (JNum t0)]\<rparr>)"
  using assms
  by (simp add: hydrate_try_def persistableQueries_def json_image_cache_object)

lemma hydrate_persisted:
  assumes "getItem (localStorage env) PERSISTER_KEY = Some text" and "text \<noteq> []"
    and "JSON_parse rt text = Inr (json_image (cache_object t0 (persistableQueries client)))"
    and "t1 - t0 \<le> 24 * 60 * 60 * 1000"
    and "distinct (map (\<lambda>q. hashKey rt (json_image_elements (queryKey q)))
           (filter persist_filter client))"
  shows "hydrateQueryCache rt t1 [] env =
           Some (map (\<lambda>q. \<lparr>queryKey = json_image_elements (queryKey q),
                           queryHash = hashKey rt (json_image_elements (queryKey q)),
                           state = \<lparr>data = json_image (data (state q)),
                                     dataUpdatedAt = dataUpdatedAt (state q),
                                     status = Success\<rparr>\<rparr>)
                   (filter (\<lambda>q. json_image (data (state q)) \<noteq> JUndefined)
                      (filter persist_filter client)),
                 env\<lparr>console := console env @
                   [Log_restored (length (filter persist_filter client)) (JNum t0)]\<rparr>)"
proof -
  have "restore_entries rt t1
          (map (\<lambda>q. json_image (persist_entry q)) (filter persist_filter client)) [] 0 =
        Restored
          ([] @ map (\<lambda>q. \<lparr>queryKey = json_image_elements (queryKey q),
                           queryHash = hashKey rt (json_image_elements (queryKey q)),
                           state = \<lparr>data = json_image (data (state q)),
                                     dataUpdatedAt = dataUpdatedAt (state q),
                                     status = Success\<rparr>\<rparr>)
                 (filter (\<lambda>q. json_image (data (state q)) \<noteq> JUndefined)
                    (filter persist_filter client)))
          (0 + length (filter persist_filter client))"
    by (rule restore_entries_persisted) (use assms(5) in simp_all)
  then show ?thesis
    using hydrate_try_persisted [OF assms(3,4), of _ _ env] assms(1,2)
    by (simp add: hydrateQueryCache_def)
qed

lemma setQueryData_keys:
  "queryKey ` set (setQueryData rt now key d u client) \<subseteq> insert key (queryKey ` set client)"
  by (auto simp: setQueryData_def Let_def)

text \<open>
  Whatever the hashes, the loop ends, and every query it leaves was there before or is
  filed under the key of one of the entries.
\<close>

lemma restore_entries_origin:
  "\<exists>client' n'.
     restore_entries rt now (map (\<lambda>q. json_image (persist_entry q)) qs) client n =
       Restored client' n' \<and>
     queryKey ` set client' \<subseteq>
       queryKey ` set client \<union> (\<lambda>q. json_image_elements (queryKey q)) ` set qs"
proof (induction qs arbitrary: client n)
  case Nil
  then show ?case by simp
next
  case (Cons q qs)
  let ?next = "setQueryData rt now (json_image_elements (queryKey q))
                 (json_image (data (state q))) (Some (dataUpdatedAt (state q))) client"
  from Cons.IH [of ?next "Suc n"] obtain client' n' where
    r: "restore_entries rt now (map (\<lambda>q. json_image (persist_entry q)) qs) ?next (Suc n) =
          Restored client' n'"
    and k: "queryKey ` set client' \<subseteq>
             queryKey ` set ?next \<union> (\<lambda>q. json_image_elements (queryKey q)) ` set qs"
    by blast
  have "restore_entries rt now (map (\<lambda>q. json_image (persist_entry q)) (q # qs)) client n =
          Restored client' n'"
    using r by (simp add: restore_entries_step del: restore_entries.simps)
  moreover have "queryKey ` set client' \<subseteq>
      queryKey ` set client \<union> (\<lambda>q. json_image_elements (queryKey q)) ` set (q # qs)"
    using k setQueryData_keys [of rt now "json_image_elements (queryKey q)"
        "json_image (data (state q))" "Some (dataUpdatedAt (state q))" client]
    by auto
  ultimately show ?case
    by blast
qed

lemma hydrate_persisted_origin:
  assumes "getItem (localStorage env) PERSISTER_KEY = Some stored" and "stored \<noteq> []"
    and "JSON_parse rt stored = Inr (json_image (cache_object t0 (persistableQueries client)))"
  shows "\<exists>client' env2.
           hydrateQueryCache rt t1 [] env = Some (client', env2) \<and>
           queryKey ` set client' \<subseteq>
             (\<lambda>q. json_image_elements (queryKey q)) ` set (filter persist_filter client)"
proof (cases "t1 - t0 \<le> 24 * 60 * 60 * 1000")
  case True
  from restore_entries_origin [of rt t1 "filter persist_filter client" "[]" 0]
  obtain client' n' where
    r: "restore_entries rt t1
          (map (\<lambda>q. json_image (persist_entry q)) (filter persist_filter client)) [] 0 =
        Restored client' n'"
    and k: "queryKey ` set client' \<subseteq>
             (\<lambda>q. json_image_elements (queryKey q)) ` set (filter persist_filter client)"
    by auto
  have "hydrateQueryCache rt t1 [] env =
          Some (client', env\<lparr>console := console env @ [Log_restored n' (JNum t0)]\<rparr>)"
    using hydrate_try_persisted [OF assms(3) True r, of env] assms(1,2)
    by (simp add: hydrateQueryCache_def)
  with k show ?thesis
    by blast
next
  case False
  have "getProp (json_image (cache_object t0 (persistableQueries client))) ''timestamp'' =
          Inr (JNum t0)"
    by (simp add: persistableQueries_def json_image_cache_object)
  from hydrate_discards_old [OF assms(1-3) this, of t1 "[]"] False
  show ?thesis
    by auto
qed

text \<open>
  C1, as the code has it. The cache is persisted at time \<open>t0\<close> and the snapshot is
  written: it serializes, its text is within the length cap and the quota. The parser
  reads the text back, and the hydration runs at a time \<open>t1\<close> at most 24 hours later,
  into an empty cache, where the persisted keys are filed under different hashes. Then
  every query of the persisted cache that has status success, a key outside the
  exclusion list, and data that are truthy and that JSON keeps (\<open>JSON.stringify\<close> has a
  text for them: they are not a function) is in the hydrated cache, under its key and
  with its data as JSON carries them (null where the data were an infinity), with status
  success and with the \<open>dataUpdatedAt\<close> it had, not the time \<open>t1\<close> of the hydration.
\<close>

theorem persist_hydrate_round_trip:
  assumes "JSON_stringify (Number_toString rt) (cache_object t0 (persistableQueries client)) =
             Inr (Some text)"
    and "length text \<le> 2 * 1024 * 1024"
    and "length text \<le> quota (localStorage env)"
    and "JSON_parse rt text = Inr (json_image (cache_object t0 (persistableQueries client)))"
    and "t1 - t0 \<le> 24 * 60 * 60 * 1000"
    and "distinct (map (\<lambda>q. hashKey rt (json_image_elements (queryKey q)))
           (filter persist_filter client))"
    and "q \<in> set client" and "status (state q) = Success" and "truthy (data (state q))"
    and "JSON_stringify (Number_toString rt) (data (state q)) \<noteq> Inr None"
    and "\<not> is_excluded q"
  shows "\<exists>env1 client' env2.
           persistQueryCache rt t0 client env = Inr env1 \<and>
           hydrateQueryCache rt t1 [] env1 = Some (client', env2) \<and>
           (\<exists>q' \<in> set client'.
              queryKey q' = json_image_elements (queryKey q) \<and>
              status (state q') = Success \<and>
              data (state q') = json_image (data (state q)) \<and>
              dataUpdatedAt (state q') = dataUpdatedAt (state q))"
proof -
  have pq: "persist_filter q"
    using assms(8,9,11) by (simp add: persist_filter_iff)
  have kept: "json_image (data (state q)) \<noteq> JUndefined"
    using assms(10) by (simp add: kept_iff)
  from pq assms(7) have ne: "persistableQueries client \<noteq> []"
    by (auto simp: persistableQueries_def filter_empty_conv)
  let ?env1 = "env\<lparr>localStorage :=
                    (localStorage env)\<lparr>items :=
                       (items (localStorage env))(PERSISTER_KEY \<mapsto> text)\<rparr>,
                  console := console env @
                    [Log_persisted (length (persistableQueries client))]\<rparr>"
  have p: "persistQueryCache rt t0 client env = Inr ?env1"
    by (rule persist_writes [OF ne assms(1-3)])
  have slot: "getItem (localStorage ?env1) PERSISTER_KEY = Some text"
    by (simp add: getItem_def)
  have nonempty: "text \<noteq> []"
    using assms(1) unfolding cache_object_def by (rule stringify_object_nonempty)
  note h = hydrate_persisted [OF slot nonempty assms(4-6)]
  show ?thesis
    using p h assms(7) pq kept by (intro exI conjI) (assumption, assumption, force)
qed

text \<open>
  The instance: the example cache, persisted at time 1000 and hydrated at time 2000;
  the statistics overview comes back with \<open>dataUpdatedAt = 600\<close>.
\<close>

theorem persist_hydrate_round_trip_witness:
  "\<exists>env1 client' env2.
     persistQueryCache example_runtime 1000 example_client (storage_with None 5000000) =
       Inr env1 \<and>
     hydrateQueryCache example_runtime 2000 [] env1 = Some (client', env2) \<and>
     (\<exists>q' \<in> set client'.
        queryKey q' = [JStr ''stats'', JStr ''overview''] \<and>
        status (state q') = Success \<and>
        data (state q') = JObj [(''total'', JNum 7)] \<and>
        dataUpdatedAt (state q') = 600)"
proof -
  let ?v = "cache_object 1000 (persistableQueries example_client)"
  obtain s where s0: "JSON_stringify show_int ?v = Inr (Some s)" and len: "length s = 115"
    using example_text by blast
  then have s: "JSON_stringify (Number_toString example_runtime) ?v = Inr (Some s)"
    by simp
  have l1: "length s \<le> 2 * 1024 * 1024"
    using len by simp
  have l2: "length s \<le> quota (localStorage (storage_with None 5000000))"
    using len by (simp add: storage_with_def)
  have parse: "JSON_parse example_runtime s = Inr (json_image ?v)"
    unfolding example_runtime_def by (rule reading_back_parse [OF s0])
  have age: "(2000::int) - 1000 \<le> 24 * 60 * 60 * 1000"
    by simp
  have d: "distinct (map (\<lambda>q. hashKey example_runtime (json_image_elements (queryKey q)))
      (filter persist_filter example_client))"
    by (simp add: example_persistable)
  have q: "q_stats \<in> set example_client" "status (state q_stats) = Success"
    "truthy (data (state q_stats))"
    "JSON_stringify (Number_toString example_runtime) (data (state q_stats)) \<noteq> Inr None"
    "\<not> is_excluded q_stats"
    by (simp_all add: example_defs)
  from persist_hydrate_round_trip [OF s l1 l2 parse age d q]
  show ?thesis
    by (simp add: q_stats_def cached_def)
qed

text \<open>
  The claim as the specification states it fails on a success entry whose data is
  falsy. The example cache holds the statistic whose data is 0: its status is success
  and its key is not excluded. The snapshot is written with the current schema version
  and hydrated one second later, and the hydrated cache has no query under that key.
\<close>

theorem falsy_success_entry_not_restored:
  "\<exists>env1 client' env2.
     persistQueryCache example_runtime 1000 example_client (storage_with None 5000000) =
       Inr env1 \<and>
     getItem (localStorage env1) PERSISTER_KEY =
       Some (text_of (cache_object 1000 (persistableQueries example_client))) \<and>
     hydrateQueryCache example_runtime 2000 [] env1 = Some (client', env2) \<and>
     q_zero \<in> set example_client \<and> status (state q_zero) = Success \<and> \<not> is_excluded q_zero \<and>
     map queryKey client' = [[JStr ''stats'', JStr ''overview'']] \<and>
     \<not> (\<exists>q' \<in> set client'. queryKey q' = queryKey q_zero)"
proof -
  let ?v = "cache_object 1000 (persistableQueries example_client)"
  let ?env = "storage_with None 5000000"
  obtain s where s0: "JSON_stringify show_int ?v = Inr (Some s)" and len: "length s = 115"
    using example_text by blast
  then have s: "JSON_stringify (Number_toString example_runtime) ?v = Inr (Some s)"
    by simp
  have ne: "persistableQueries example_client \<noteq> []"
    by (simp add: persistableQueries_def example_persistable)
  let ?env1 = "?env\<lparr>localStorage :=
                     (localStorage ?env)\<lparr>items :=
                        (items (localStorage ?env))(PERSISTER_KEY \<mapsto> s)\<rparr>,
                   console := console ?env @
                     [Log_persisted (length (persistableQueries example_client))]\<rparr>"
  have p: "persistQueryCache example_runtime 1000 example_client ?env = Inr ?env1"
    by (rule persist_writes [OF ne s]) (simp_all add: len storage_with_def)
  have slot: "getItem (localStorage ?env1) PERSISTER_KEY = Some s"
    by (simp add: getItem_def)
  have nonempty: "s \<noteq> []"
    using len by auto
  have parse: "JSON_parse example_runtime s = Inr (json_image ?v)"
    unfolding example_runtime_def by (rule reading_back_parse [OF s0])
  have d: "distinct (map (\<lambda>q. hashKey example_runtime (json_image_elements (queryKey q)))
      (filter persist_filter example_client))"
    by (simp add: example_persistable)
  have age: "(2000::int) - 1000 \<le> 24 * 60 * 60 * 1000"
    by simp
  from hydrate_persisted [OF slot nonempty parse age d]
  obtain client' env2 where
    h: "hydrateQueryCache example_runtime 2000 [] ?env1 = Some (client', env2)"
    and c: "map queryKey client' =
      map (\<lambda>q. json_image_elements (queryKey q))
        (filter (\<lambda>q. json_image (data (state q)) \<noteq> JUndefined)
           (filter persist_filter example_client))"
    by simp
  have keys: "map queryKey client' = [[JStr ''stats'', JStr ''overview'']]"
    by (simp add: c example_persistable q_stats_def cached_def)
  have absent: "\<not> (\<exists>q' \<in> set client'. queryKey q' = queryKey q_zero)"
  proof
    assume "\<exists>q' \<in> set client'. queryKey q' = queryKey q_zero"
    then obtain q' where "q' \<in> set client'" and "queryKey q' = queryKey q_zero"
      by blast
    then have "queryKey q_zero \<in> set (map queryKey client')"
      unfolding set_map by (metis imageI)
    then show False
      by (simp add: keys q_zero_def cached_def)
  qed
  show ?thesis
  proof (intro exI conjI)
    show "persistQueryCache example_runtime 1000 example_client ?env = Inr ?env1"
      by (rule p)
    show "getItem (localStorage ?env1) PERSISTER_KEY = Some (text_of ?v)"
      unfolding text_of_eq [OF s0] by (rule slot)
    show "hydrateQueryCache example_runtime 2000 [] ?env1 = Some (client', env2)"
      by (rule h)
    show "q_zero \<in> set example_client" "status (state q_zero) = Success" "\<not> is_excluded q_zero"
      by (simp_all add: example_defs)
    show "map queryKey client' = [[JStr ''stats'', JStr ''overview'']]"
      by (rule keys)
    show "\<not> (\<exists>q' \<in> set client'. queryKey q' = queryKey q_zero)"
      by (rule absent)
  qed
qed

text \<open>
  The condition that JSON keeps the data is needed: a success entry whose data is a
  function is truthy and passes the filter, its entry is written without a \<open>data\<close>
  property, and the hydration restores nothing for it.
\<close>

lemma function_data_not_restored:
  "persist_filter q_function \<and>
   JSON_stringify show_int (data (state q_function)) = Inr None \<and>
   (\<exists>s env1 env2.
      JSON_stringify show_int (cache_object 1000 (persistableQueries [q_function])) =
        Inr (Some s) \<and>
      persistQueryCache (reading_back (cache_object 1000 (persistableQueries [q_function])))
        1000 [q_function] (storage_with None 5000000) = Inr env1 \<and>
      getItem (localStorage env1) PERSISTER_KEY = Some s \<and>
      hydrateQueryCache (reading_back (cache_object 1000 (persistableQueries [q_function])))
        2000 [] env1 = Some ([], env2))"
proof -
  let ?v = "cache_object 1000 (persistableQueries [q_function])"
  let ?rt = "reading_back ?v"
  let ?env = "storage_with None 5000000"
  have f: "persist_filter q_function"
    "JSON_stringify show_int (data (state q_function)) = Inr None"
    "filter persist_filter [q_function] = [q_function]"
    by (simp_all add: example_defs q_function_def)
  have "\<exists>s. JSON_stringify show_int ?v = Inr (Some s) \<and> length s \<le> 200 \<and> s \<noteq> []"
    by (simp add: example_defs q_function_def)
  then obtain s where s0: "JSON_stringify show_int ?v = Inr (Some s)"
    and len: "length s \<le> 200" and nonempty: "s \<noteq> []"
    by blast
  then have s: "JSON_stringify (Number_toString ?rt) ?v = Inr (Some s)"
    by simp
  have ne: "persistableQueries [q_function] \<noteq> []"
    by (simp add: persistableQueries_def f)
  let ?env1 = "?env\<lparr>localStorage :=
                     (localStorage ?env)\<lparr>items :=
                        (items (localStorage ?env))(PERSISTER_KEY \<mapsto> s)\<rparr>,
                   console := console ?env @
                     [Log_persisted (length (persistableQueries [q_function]))]\<rparr>"
  have p: "persistQueryCache ?rt 1000 [q_function] ?env = Inr ?env1"
    by (rule persist_writes [OF ne s]) (use len in \<open>simp_all add: storage_with_def\<close>)
  have slot: "getItem (localStorage ?env1) PERSISTER_KEY = Some s"
    by (simp add: getItem_def)
  have d: "distinct (map (\<lambda>q. hashKey ?rt (json_image_elements (queryKey q)))
      (filter persist_filter [q_function]))"
    by (simp add: f)
  have age: "(2000::int) - 1000 \<le> 24 * 60 * 60 * 1000"
    by simp
  from hydrate_persisted [OF slot nonempty reading_back_parse [OF s0] age d]
  obtain env2 where "hydrateQueryCache ?rt 2000 [] ?env1 = Some ([], env2)"
    by (simp add: f q_function_def cached_def)
  with f s0 p slot show ?thesis
    by blast
qed

text \<open>
  C10. A query whose data is falsy (undefined, null, false, 0, NaN, the empty string,
  and the BigInt 0: lemma \<open>falsy_iff\<close>) is rejected by the filter whatever its status and
  key, and the entry the function would write for it is not in the list it serializes.
  Consequently, when that snapshot is written and a later hydration reads it back into
  an empty cache, at whatever time, no restored query is filed under the key of the
  falsy query (the cache holds no other, persistable query under that key).
\<close>

theorem falsy_data_never_persisted:
  assumes "\<not> truthy (data (state q))"
  shows "\<not> persist_filter q \<and>
         persist_entry q \<notin> set (persistableQueries client) \<and>
         (persistableQueries client \<noteq> [] \<and>
          JSON_stringify (Number_toString rt) (cache_object t0 (persistableQueries client)) =
            Inr (Some cacheData) \<and>
          length cacheData \<le> 2 * 1024 * 1024 \<and>
          length cacheData \<le> quota (localStorage env) \<and>
          JSON_parse rt cacheData =
            Inr (json_image (cache_object t0 (persistableQueries client))) \<and>
          (\<forall>p \<in> set client. persist_filter p \<longrightarrow>
             json_image_elements (queryKey p) \<noteq> json_image_elements (queryKey q)) \<longrightarrow>
          (\<exists>env1 client' env2.
             persistQueryCache rt t0 client env = Inr env1 \<and>
             hydrateQueryCache rt t1 [] env1 = Some (client', env2) \<and>
             (\<forall>q' \<in> set client'. queryKey q' \<noteq> json_image_elements (queryKey q))))"
proof (intro conjI impI)
  show nf: "\<not> persist_filter q"
    using assms by (simp add: persist_filter_iff)
  show "persist_entry q \<notin> set (persistableQueries client)"
  proof
    assume "persist_entry q \<in> set (persistableQueries client)"
    from persistable_data_truthy [OF this] show False
      using assms by (simp add: getProp_persist_entry)
  qed
next
  assume a: "persistableQueries client \<noteq> [] \<and>
          JSON_stringify (Number_toString rt) (cache_object t0 (persistableQueries client)) =
            Inr (Some cacheData) \<and>
          length cacheData \<le> 2 * 1024 * 1024 \<and>
          length cacheData \<le> quota (localStorage env) \<and>
          JSON_parse rt cacheData =
            Inr (json_image (cache_object t0 (persistableQueries client))) \<and>
          (\<forall>p \<in> set client. persist_filter p \<longrightarrow>
             json_image_elements (queryKey p) \<noteq> json_image_elements (queryKey q))"
  let ?env1 = "env\<lparr>localStorage :=
                    (localStorage env)\<lparr>items :=
                       (items (localStorage env))(PERSISTER_KEY \<mapsto> cacheData)\<rparr>,
                  console := console env @
                    [Log_persisted (length (persistableQueries client))]\<rparr>"
  have p: "persistQueryCache rt t0 client env = Inr ?env1"
    using a by (intro persist_writes) simp_all
  have slot: "getItem (localStorage ?env1) PERSISTER_KEY = Some cacheData"
    by (simp add: getItem_def)
  have nonempty: "cacheData \<noteq> []"
    using a unfolding cache_object_def by (blast dest: stringify_object_nonempty)
  have parse: "JSON_parse rt cacheData =
      Inr (json_image (cache_object t0 (persistableQueries client)))"
    using a by simp
  from hydrate_persisted_origin [OF slot nonempty parse, of t1] obtain client' env2 where
    h: "hydrateQueryCache rt t1 [] ?env1 = Some (client', env2)"
    and k: "queryKey ` set client' \<subseteq>
             (\<lambda>q. json_image_elements (queryKey q)) ` set (filter persist_filter client)"
    by blast
  have "queryKey q' \<noteq> json_image_elements (queryKey q)" if "q' \<in> set client'" for q'
  proof -
    from that k obtain p where "p \<in> set client" "persist_filter p"
      "queryKey q' = json_image_elements (queryKey p)"
      by auto
    then show ?thesis
      using a by auto
  qed
  with p h show "\<exists>env1 client' env2.
             persistQueryCache rt t0 client env = Inr env1 \<and>
             hydrateQueryCache rt t1 [] env1 = Some (client', env2) \<and>
             (\<forall>q' \<in> set client'. queryKey q' \<noteq> json_image_elements (queryKey q))"
    by blast
qed

text \<open>
  The instance: the statistic whose data is 0 in the example cache, persisted at time
  1000 and hydrated at time 2000.
\<close>

theorem falsy_data_never_persisted_witness:
  "\<not> truthy (data (state q_zero)) \<and> status (state q_zero) = Success \<and> \<not> is_excluded q_zero \<and>
   \<not> persist_filter q_zero \<and>
   persist_entry q_zero \<notin> set (persistableQueries example_client) \<and>
   (\<exists>env1 client' env2.
      persistQueryCache example_runtime 1000 example_client (storage_with None 5000000) =
        Inr env1 \<and>
      hydrateQueryCache example_runtime 2000 [] env1 = Some (client', env2) \<and>
      (\<forall>q' \<in> set client'. queryKey q' \<noteq> json_image_elements (queryKey q_zero)))"
proof -
  let ?v = "cache_object 1000 (persistableQueries example_client)"
  obtain s where s0: "JSON_stringify show_int ?v = Inr (Some s)" and len: "length s = 115"
    using example_text by blast
  then have s: "JSON_stringify (Number_toString example_runtime) ?v = Inr (Some s)"
    by simp
  have f: "\<not> truthy (data (state q_zero))"
    by (simp add: q_zero_def cached_def)
  have z: "status (state q_zero) = Success \<and> \<not> is_excluded q_zero"
    by (simp add: example_defs)
  have ne: "persistableQueries example_client \<noteq> []"
    by (simp add: persistableQueries_def example_persistable)
  have l1: "length s \<le> 2 * 1024 * 1024"
    using len by simp
  have l2: "length s \<le> quota (localStorage (storage_with None 5000000))"
    using len by (simp add: storage_with_def)
  have parse: "JSON_parse example_runtime s = Inr (json_image ?v)"
    unfolding example_runtime_def by (rule reading_back_parse [OF s0])
  have u: "\<forall>p \<in> set example_client. persist_filter p \<longrightarrow>
      json_image_elements (queryKey p) \<noteq> json_image_elements (queryKey q_zero)"
    by (simp add: example_defs)
  from falsy_data_never_persisted [OF f, of example_client example_runtime 1000 s
      "storage_with None 5000000" 2000]
    f z ne s l1 l2 parse u
  show ?thesis
    by blast
qed

end
